theory Spec2Isabelle
  imports Main
begin

section \<open>Type-erased operations (inline\_poly.h, struct type\_operations)\<close>

text \<open>
  The exceptions the header throws, one constructor per throwing site kind:
  \<^item> \<open>OutOfRange\<close>: \<open>std::out_of_range\<close> for a bad index, position or range, and for
    \<open>pop_back\<close>, \<open>front\<close>, \<open>back\<close> on an empty vector;
  \<^item> \<open>CapacityExceeded\<close>: \<open>std::out_of_range\<close> with the "capacity exceeded" and
    "exceeds capacity" messages of \<open>emplace_back\<close>, \<open>emplace\<close> and \<open>resize\<close>;
  \<^item> \<open>LengthError\<close>: \<open>std::length_error\<close> of \<open>reserve\<close>;
  \<^item> \<open>NotCopyable\<close>: \<open>std::logic_error\<close> of the copy constructors and copy assignments;
  \<^item> \<open>ShiftUnsupported\<close>: \<open>std::runtime_error\<close> of \<open>poly_vector::erase\<close>;
  \<^item> \<open>NoRelocationAvailable\<close>: \<open>std::runtime_error\<close> of \<open>safe_move_construct\<close>;
  \<^item> \<open>NotCopyConstructible\<close>: \<open>std::runtime_error\<close> of \<open>safe_copy_construct\<close>;
  \<^item> \<open>ConstructorFailure\<close>: whatever a constructor of an element type throws: the
    constructor of a new element, or the copy constructor called through a table.
\<close>

datatype error =
    OutOfRange
  | CapacityExceeded
  | LengthError
  | NotCopyable
  | ShiftUnsupported
  | NoRelocationAvailable
  | NotCopyConstructible
  | ConstructorFailure

text \<open>
  A member function either returns (with its result and the container as it then is),
  or throws (leaving the container as it is at the throw), or, where a \<open>noexcept\<close>
  function lets an exception escape, ends the program through \<open>std::terminate\<close>.
\<close>

datatype ('r, 's) outcome = Return 'r 's | Throw error 's | Terminate

text \<open>
  \<open>struct type_operations\<close>. The five function pointers are modelled by whether they are
  non-null; the field \<open>size\<close> is named \<open>size_of\<close>.
\<close>

record type_operations =
  destroy :: bool
  move_construct :: bool
  move_assign :: bool
  copy_construct :: bool
  copy_assign :: bool
  size_of :: nat
  alignment :: nat
  is_trivially_copyable :: bool
  is_copy_constructible :: bool
  is_move_constructible :: bool

text \<open>
  The template argument \<open>T\<close> of \<open>type_operations_factory<T>\<close>, given by what the factory
  asks of it: \<open>sizeof(T)\<close>, \<open>alignof(T)\<close> and five type traits.
\<close>

record cpp_type =
  sizeof_T :: nat
  alignof_T :: nat
  is_trivially_copyable_v :: bool
  is_copy_constructible_v :: bool
  is_move_constructible_v :: bool
  is_move_assignable_v :: bool
  is_copy_assignable_v :: bool

text \<open>\<open>type_operations_factory<T>::create\<close>: the destructor is always set; each of the
  other four pointers is set under its \<open>if constexpr\<close>.\<close>

definition create :: "cpp_type \<Rightarrow> type_operations" where
  "create T =
     \<lparr> destroy = True,
       move_construct = is_move_constructible_v T,
       move_assign = is_move_assignable_v T,
       copy_construct = is_copy_constructible_v T,
       copy_assign = is_copy_assignable_v T,
       size_of = sizeof_T T,
       alignment = alignof_T T,
       is_trivially_copyable = is_trivially_copyable_v T,
       is_copy_constructible = is_copy_constructible_v T,
       is_move_constructible = is_move_constructible_v T \<rparr>"

definition get_type_ops :: "cpp_type \<Rightarrow> type_operations" where
  "get_type_ops T = create T"

text \<open>
  An object living in a storage slot, as far as the containers depend on it: its
  observable value; the offset of its \<open>Base\<close> subobject inside the object, which the
  conversion from \<open>Derived*\<close> to \<open>Base*\<close> adds to the address of the object (0 when
  \<open>Base\<close> is the first base); and whether the move constructor and the copy constructor
  of its type throw when they are called on this object.
\<close>

record 'v object =
  obj_value :: 'v
  obj_base_offset :: nat
  obj_move_throws :: bool
  obj_copy_throws :: bool

text \<open>
  The call a relocation helper makes: \<open>std::memcpy(dst, src, n)\<close>,
  \<open>ops.move_construct(dst, src)\<close> or \<open>ops.copy_construct(dst, src)\<close>.
\<close>

datatype relocation = Memcpy nat | MoveConstruct | CopyConstruct

definition safe_move_construct :: "type_operations \<Rightarrow> error + relocation" where
  "safe_move_construct t =
     (if is_trivially_copyable t then Inr (Memcpy (size_of t))
      else if move_construct t then Inr MoveConstruct
      else if copy_construct t then Inr CopyConstruct
      else Inl NoRelocationAvailable)"

definition safe_copy_construct :: "type_operations \<Rightarrow> error + relocation" where
  "safe_copy_construct t =
     (if copy_construct t then Inr CopyConstruct
      else if is_trivially_copyable t then Inr (Memcpy (size_of t))
      else Inl NotCopyConstructible)"

text \<open>
  What the call leaves at \<open>dst\<close>, given the content of the storage slot at \<open>src\<close>
  (\<open>None\<close> is a slot with no live object). \<open>memcpy\<close> leaves an object like the one at
  \<open>src\<close>, and so does a constructor that returns. \<open>move_constructor_fn\<close> is \<open>noexcept\<close>:
  a move constructor that throws ends the program. \<open>copy_constructor_fn\<close> is not
  \<open>noexcept\<close>: the exception of a copy constructor leaves the helper.
\<close>

definition relocate ::
    "relocation \<Rightarrow> 'v object option \<Rightarrow> ('v object option, unit) outcome" where
  "relocate r src =
     (case r of
        Memcpy n \<Rightarrow> Return src ()
      | MoveConstruct \<Rightarrow>
          (case src of
             None \<Rightarrow> Return src ()
           | Some obj \<Rightarrow> if obj_move_throws obj then Terminate else Return src ())
      | CopyConstruct \<Rightarrow>
          (case src of
             None \<Rightarrow> Return src ()
           | Some obj \<Rightarrow>
               if obj_copy_throws obj then Throw ConstructorFailure () else Return src ()))"

text \<open>\<open>safe_destroy\<close> on the content of a storage slot.\<close>

definition safe_destroy :: "type_operations \<Rightarrow> 'v option \<Rightarrow> 'v option" where
  "safe_destroy t obj = (if destroy t then None else obj)"

section \<open>poly\_vector\<close>

text \<open>
  An address inside \<open>storage_\<close>: the index of a slot and a byte offset into the slot.
  \<open>get_storage_slot(i)\<close> is the start of slot \<open>i\<close>.
\<close>

type_synonym pointer = "nat \<times> nat"

definition get_storage_slot :: "nat \<Rightarrow> pointer" where
  "get_storage_slot index = (index, 0)"

text \<open>
  \<open>struct slot_info\<close>: \<open>ptr\<close> is a \<open>Base*\<close>, null (\<open>None\<close>) or an address inside
  \<open>storage_\<close>; \<open>ops\<close> is null or points to a table. \<open>emplace\<close> and \<open>emplace_back\<close>
  store the \<open>Derived*\<close> of the new object converted to \<open>Base*\<close>, which is the address
  of its \<open>Base\<close> subobject; the shift, copy and move loops store
  \<open>static_cast<Base*>(dst)\<close> for the \<open>void*\<close> of \<open>get_storage_slot\<close>, which is the start
  of the slot.
\<close>

record slot_info =
  ptr :: "pointer option"
  ops :: "type_operations option"

definition empty_slot :: slot_info where
  "empty_slot = \<lparr> ptr = None, ops = None \<rparr>"

text \<open>The test \<open>slot.ptr && slot.ops\<close> used throughout the header.\<close>

definition occupied :: "slot_info \<Rightarrow> bool" where
  "occupied s = (ptr s \<noteq> None \<and> ops s \<noteq> None)"

text \<open>
  The data members of \<open>poly_vector\<close>. \<open>storage_v\<close> is \<open>storage_\<close> seen slot by slot: the
  object living in each slot, if any. \<open>Capacity\<close> is the length of \<open>slots_\<close>
  (a \<open>std::array<slot_info, Capacity>\<close>). \<open>ptr_cache_\<close> and \<open>cache_valid_\<close> only serve the
  iterators, which the model replaces by indices (\<open>pos - begin()\<close>).
\<close>

record 'v poly_vector =
  storage_v :: "'v object option list"
  slots_v :: "slot_info list"
  size_v :: nat
  can_copy_v :: bool
  can_move_v :: bool

definition Capacity :: "'v poly_vector \<Rightarrow> nat" where
  "Capacity v = length (slots_v v)"

text \<open>The default constructor, with the default member initialisers.\<close>

definition vector_init :: "nat \<Rightarrow> 'v poly_vector" where
  "vector_init n =
     \<lparr> storage_v = replicate n None, slots_v = replicate n empty_slot,
       size_v = 0, can_copy_v = False, can_move_v = True \<rparr>"

definition vector_is_copyable :: "'v poly_vector \<Rightarrow> bool" where
  "vector_is_copyable v = can_copy_v v"


text \<open>\<open>destroy_at\<close> passes the stored \<open>Base*\<close> to the destructor of the table, which
  calls \<open>~T()\<close> through it (\<open>Base\<close> has a virtual destructor); the object destroyed is
  the one of the storage slot the pointer points into.\<close>

definition vector_destroy_at :: "nat \<Rightarrow> 'v poly_vector \<Rightarrow> 'v poly_vector" where
  "vector_destroy_at index v =
     (case (ptr (slots_v v ! index), ops (slots_v v ! index)) of
        (Some p, Some t) \<Rightarrow>
          v \<lparr> storage_v := (storage_v v)[fst p := safe_destroy t (storage_v v ! fst p)],
              slots_v := (slots_v v)[index := empty_slot] \<rparr>
      | _ \<Rightarrow> v)"

text \<open>The body of the loop of \<open>update_capabilities\<close>, on the triple
  \<open>(all_copyable, all_movable, has_elements)\<close>.\<close>

definition capabilities_step :: "slot_info \<Rightarrow> bool \<times> bool \<times> bool \<Rightarrow> bool \<times> bool \<times> bool" where
  "capabilities_step slot acc =
     (case acc of (all_copyable, all_movable, has_elements) \<Rightarrow>
        (case (ptr slot, ops slot) of
           (Some p, Some t) \<Rightarrow>
             (if is_copy_constructible t then all_copyable else False,
              if is_move_constructible t then all_movable else False,
              True)
         | _ \<Rightarrow> acc))"

definition vector_update_capabilities :: "'v poly_vector \<Rightarrow> 'v poly_vector" where
  "vector_update_capabilities v =
     (case fold capabilities_step (take (size_v v) (slots_v v)) (True, True, False) of
        (all_copyable, all_movable, has_elements) \<Rightarrow>
          v \<lparr> can_copy_v := \<not> has_elements \<or> all_copyable,
              can_move_v := \<not> has_elements \<or> all_movable \<rparr>)"

text \<open>
  \<open>emplace_back<Derived>(args...)\<close>. \<open>T\<close> is \<open>Derived\<close>; \<open>ctor\<close> is what running
  \<open>Derived(args...)\<close> gives: the new object or the exception it throws. The slot info
  gets the \<open>Derived*\<close> of the new object converted to \<open>Base*\<close>. The \<open>Derived*\<close> is
  returned, as the index of the slot it is the start of.
\<close>

definition vector_emplace_back ::
    "'v poly_vector \<Rightarrow> cpp_type \<Rightarrow> error + 'v object \<Rightarrow> (nat, 'v poly_vector) outcome" where
  "vector_emplace_back v T ctor =
     (if size_v v \<ge> Capacity v then Throw CapacityExceeded v
      else case ctor of
        Inl e \<Rightarrow> Throw e v
      | Inr obj \<Rightarrow>
          Return (size_v v)
            (vector_update_capabilities
               (v \<lparr> storage_v := (storage_v v)[size_v v := Some obj],
                    slots_v := (slots_v v)[size_v v :=
                                 \<lparr> ptr = Some (size_v v, obj_base_offset obj),
                                   ops = Some (get_type_ops T) \<rparr>],
                    size_v := size_v v + 1 \<rparr>)))"

definition vector_pop_back :: "'v poly_vector \<Rightarrow> (unit, 'v poly_vector) outcome" where
  "vector_pop_back v =
     (if size_v v = 0 then Throw OutOfRange v
      else Return ()
             (vector_update_capabilities
                (vector_destroy_at (size_v v - 1) (v \<lparr> size_v := size_v v - 1 \<rparr>))))"

text \<open>\<open>front()\<close> and \<open>back()\<close> return the stored pointer of the first and last slot.\<close>

definition vector_front :: "'v poly_vector \<Rightarrow> (pointer option, 'v poly_vector) outcome" where
  "vector_front v =
     (if size_v v = 0 then Throw OutOfRange v else Return (ptr (slots_v v ! 0)) v)"

definition vector_back :: "'v poly_vector \<Rightarrow> (pointer option, 'v poly_vector) outcome" where
  "vector_back v =
     (if size_v v = 0 then Throw OutOfRange v
      else Return (ptr (slots_v v ! (size_v v - 1))) v)"

text \<open>
  A loop whose body may throw: the exception leaves the loop with the state as it is.
\<close>

fun for_loop :: "nat list \<Rightarrow> (nat \<Rightarrow> 's \<Rightarrow> (unit, 's) outcome) \<Rightarrow> 's \<Rightarrow> (unit, 's) outcome" where
  "for_loop [] body s = Return () s"
| "for_loop (i # rest) body s =
     (case body i s of
        Return _ s' \<Rightarrow> for_loop rest body s'
      | Throw e s' \<Rightarrow> Throw e s'
      | Terminate \<Rightarrow> Terminate)"

text \<open>
  The body shared by the loops of \<open>shift_right\<close> and \<open>shift_left\<close>, for the slot
  indices \<open>src\<close> and \<open>dst\<close>: relocate (an exception of \<open>safe_move_construct\<close> or of the
  copy constructor leaves the loop here, with the slots as they are; a move constructor
  that throws ends the program), copy the slot info and give it the pointer
  \<open>static_cast<Base*>(dst_storage)\<close>, destroy the old object at \<open>src_storage\<close>, empty the
  old slot info.
\<close>

definition shift_step :: "nat \<Rightarrow> nat \<Rightarrow> 'v poly_vector \<Rightarrow> (unit, 'v poly_vector) outcome" where
  "shift_step src dst v =
     (case (ptr (slots_v v ! src), ops (slots_v v ! src)) of
        (Some p, Some t) \<Rightarrow>
          (case safe_move_construct t of
             Inl e \<Rightarrow> Throw e v
           | Inr r \<Rightarrow>
               (case relocate r (storage_v v ! src) of
                  Throw e _ \<Rightarrow> Throw e v
                | Terminate \<Rightarrow> Terminate
                | Return obj _ \<Rightarrow>
                    (let st1 = (storage_v v)[dst := obj];
                         sl1 = (slots_v v)[dst := (slots_v v ! src)
                                                   \<lparr> ptr := Some (get_storage_slot dst) \<rparr>];
                         st2 = st1[src := safe_destroy t (st1 ! src)];
                         sl2 = sl1[src := empty_slot]
                     in Return () (v \<lparr> storage_v := st2, slots_v := sl2 \<rparr>))))
      | _ \<Rightarrow> Return () v)"

text \<open>\<open>for (size_t i = size_; i > start_index; --i)\<close>, with \<open>src = i - 1\<close> and
  \<open>dst = src + count\<close>.\<close>

fun shift_right_loop ::
    "nat \<Rightarrow> nat \<Rightarrow> nat \<Rightarrow> 'v poly_vector \<Rightarrow> (unit, 'v poly_vector) outcome" where
  "shift_right_loop i start_index count v =
     (if i > start_index then
        (case shift_step (i - 1) (i - 1 + count) v of
           Return _ v' \<Rightarrow> shift_right_loop (i - 1) start_index count v'
         | Throw e v' \<Rightarrow> Throw e v'
         | Terminate \<Rightarrow> Terminate)
      else Return () v)"

definition vector_shift_right ::
    "'v poly_vector \<Rightarrow> nat \<Rightarrow> nat \<Rightarrow> (unit, 'v poly_vector) outcome" where
  "vector_shift_right v start_index count = shift_right_loop (size_v v) start_index count v"

text \<open>\<open>for (size_t i = start_index; i < size_; ++i)\<close>, with \<open>dst = i - count\<close>; \<open>n\<close> is
  \<open>size_\<close>, which the loop does not change.\<close>

function shift_left_loop ::
    "nat \<Rightarrow> nat \<Rightarrow> nat \<Rightarrow> 'v poly_vector \<Rightarrow> (unit, 'v poly_vector) outcome" where
  "shift_left_loop i n count v =
     (if i < n then
        (case shift_step i (i - count) v of
           Return _ v' \<Rightarrow> shift_left_loop (i + 1) n count v'
         | Throw e v' \<Rightarrow> Throw e v'
         | Terminate \<Rightarrow> Terminate)
      else Return () v)"
  by pat_completeness auto
termination
  by (relation "measure (\<lambda>(i, n, count, v). n - i)") auto

definition vector_shift_left ::
    "'v poly_vector \<Rightarrow> nat \<Rightarrow> nat \<Rightarrow> (unit, 'v poly_vector) outcome" where
  "vector_shift_left v start_index count = shift_left_loop start_index (size_v v) count v"

text \<open>
  \<open>emplace<Derived>(pos, args...)\<close>, with \<open>index = pos - begin()\<close>. The elements are
  shifted first; \<open>Derived\<close>'s constructor runs afterwards, and if it throws the exception
  leaves \<open>emplace\<close> with the container as the shift left it.
\<close>

definition vector_emplace ::
    "'v poly_vector \<Rightarrow> nat \<Rightarrow> cpp_type \<Rightarrow> error + 'v object \<Rightarrow>
     (nat, 'v poly_vector) outcome" where
  "vector_emplace v index T ctor =
     (if index > size_v v then Throw OutOfRange v
      else if size_v v \<ge> Capacity v then Throw CapacityExceeded v
      else
        (case (if index < size_v v then vector_shift_right v index 1 else Return () v) of
           Throw e v1 \<Rightarrow> Throw e v1
         | Terminate \<Rightarrow> Terminate
         | Return _ v1 \<Rightarrow>
             (case ctor of
                Inl e \<Rightarrow> Throw e v1
              | Inr obj \<Rightarrow>
                  Return index
                    (vector_update_capabilities
                       (v1 \<lparr> storage_v := (storage_v v1)[index := Some obj],
                             slots_v := (slots_v v1)[index :=
                                          \<lparr> ptr = Some (index, obj_base_offset obj),
                                            ops = Some (get_type_ops T) \<rparr>],
                             size_v := size_v v1 + 1 \<rparr>)))))"

text \<open>\<open>erase(first, last)\<close> on the indices of the two iterators; the index of \<open>first\<close>
  is returned.\<close>

definition vector_erase ::
    "'v poly_vector \<Rightarrow> nat \<Rightarrow> nat \<Rightarrow> (nat, 'v poly_vector) outcome" where
  "vector_erase v first_index last_index =
     (if first_index > last_index \<or> last_index > size_v v then Throw OutOfRange v
      else
        (let count = last_index - first_index in
         if count = 0 then Return first_index v
         else if last_index < size_v v \<and> \<not> can_move_v v then Throw ShiftUnsupported v
         else
           (let v1 = fold vector_destroy_at [first_index..<last_index] v in
            case (if last_index < size_v v1 then vector_shift_left v1 last_index count
                  else Return () v1) of
              Throw e v2 \<Rightarrow> Throw e v2
            | Terminate \<Rightarrow> Terminate
            | Return _ v2 \<Rightarrow>
                Return first_index
                  (vector_update_capabilities (v2 \<lparr> size_v := size_v v2 - count \<rparr>)))))"

text \<open>\<open>erase(pos)\<close>.\<close>

definition vector_erase_at :: "'v poly_vector \<Rightarrow> nat \<Rightarrow> (nat, 'v poly_vector) outcome" where
  "vector_erase_at v index =
     (if index \<ge> size_v v then Throw OutOfRange v else vector_erase v index (index + 1))"

definition vector_clear :: "'v poly_vector \<Rightarrow> 'v poly_vector" where
  "vector_clear v =
     (fold vector_destroy_at [0..<size_v v] v)
       \<lparr> size_v := 0, can_copy_v := False, can_move_v := True \<rparr>"

text \<open>The two loops of \<open>resize\<close>.\<close>

function resize_shrink :: "nat \<Rightarrow> 'v poly_vector \<Rightarrow> (unit, 'v poly_vector) outcome" where
  "resize_shrink new_size v =
     (if size_v v > new_size then
        (case vector_pop_back v of
           Return _ v' \<Rightarrow> resize_shrink new_size v'
         | Throw e v' \<Rightarrow> Throw e v'
         | Terminate \<Rightarrow> Terminate)
      else Return () v)"
  by pat_completeness auto
termination
  by (relation "measure (\<lambda>(new_size, v). size_v v)")
     (auto simp: vector_pop_back_def vector_update_capabilities_def vector_destroy_at_def
           split: if_splits prod.splits option.splits)

function resize_grow :: "nat \<Rightarrow> 'v poly_vector \<Rightarrow> 'v poly_vector" where
  "resize_grow new_size v =
     (if size_v v < new_size then
        resize_grow new_size
          (v \<lparr> slots_v := (slots_v v)[size_v v := (slots_v v ! size_v v) \<lparr> ptr := None \<rparr>],
               size_v := size_v v + 1 \<rparr>)
      else v)"
  by pat_completeness auto
termination
  by (relation "measure (\<lambda>(new_size, v). new_size - size_v v)") auto

definition vector_resize :: "'v poly_vector \<Rightarrow> nat \<Rightarrow> (unit, 'v poly_vector) outcome" where
  "vector_resize v new_size =
     (if new_size > Capacity v then Throw CapacityExceeded v
      else
        (case resize_shrink new_size v of
           Throw e v1 \<Rightarrow> Throw e v1
         | Terminate \<Rightarrow> Terminate
         | Return _ v1 \<Rightarrow> Return () (resize_grow new_size v1)))"

text \<open>
  \<open>copy_from\<close>: the source object of slot \<open>i\<close> is read at \<open>other.get_storage_slot(i)\<close>
  and copied into slot \<open>i\<close> of this container; an exception of the copy constructor
  leaves \<open>copy_from\<close>. The slot info gets the pointer \<open>static_cast<Base*>(dst)\<close>.
\<close>

definition vector_copy_step ::
    "'v poly_vector \<Rightarrow> nat \<Rightarrow> 'v poly_vector \<Rightarrow> (unit, 'v poly_vector) outcome" where
  "vector_copy_step other i this =
     (case (ptr (slots_v other ! i), ops (slots_v other ! i)) of
        (Some p, Some t) \<Rightarrow>
          (case safe_copy_construct t of
             Inl e \<Rightarrow> Throw e this
           | Inr r \<Rightarrow>
               (case relocate r (storage_v other ! i) of
                  Throw e _ \<Rightarrow> Throw e this
                | Terminate \<Rightarrow> Terminate
                | Return obj _ \<Rightarrow>
                    Return ()
                      (this \<lparr> storage_v := (storage_v this)[i := obj],
                             slots_v := (slots_v this)[i :=
                                          \<lparr> ptr = Some (get_storage_slot i), ops = Some t \<rparr>] \<rparr>)))
      | _ \<Rightarrow> Return () this)"

definition vector_copy_from ::
    "'v poly_vector \<Rightarrow> 'v poly_vector \<Rightarrow> (unit, 'v poly_vector) outcome" where
  "vector_copy_from this other =
     (case for_loop [0..<size_v other] (vector_copy_step other)
             (this \<lparr> size_v := size_v other \<rparr>) of
        Return _ this' \<Rightarrow>
          Return () (this' \<lparr> can_copy_v := can_copy_v other, can_move_v := can_move_v other \<rparr>)
      | Throw e this' \<Rightarrow> Throw e this'
      | Terminate \<Rightarrow> Terminate)"

text \<open>The copy constructor builds a container of the same \<open>Capacity\<close>; when it throws
  before \<open>copy_from\<close>, the members still have their default initialisers.\<close>

definition vector_copy_ctor :: "'v poly_vector \<Rightarrow> (unit, 'v poly_vector) outcome" where
  "vector_copy_ctor other =
     (if \<not> can_copy_v other then Throw NotCopyable (vector_init (Capacity other))
      else vector_copy_from (vector_init (Capacity other)) other)"

text \<open>Copy assignment \<open>this = other\<close> for two distinct containers
  (\<open>this != &other\<close>). Self-assignment only runs the \<open>can_copy_\<close> check.\<close>

definition vector_copy_assign ::
    "'v poly_vector \<Rightarrow> 'v poly_vector \<Rightarrow> (unit, 'v poly_vector) outcome" where
  "vector_copy_assign this other =
     (if \<not> can_copy_v other then Throw NotCopyable this
      else vector_copy_from (vector_clear this) other)"

definition vector_copy_assign_self :: "'v poly_vector \<Rightarrow> (unit, 'v poly_vector) outcome" where
  "vector_copy_assign_self this =
     (if \<not> can_copy_v this then Throw NotCopyable this else Return () this)"

text \<open>
  \<open>move_from\<close> works on the pair \<open>(this, other)\<close>. It is \<open>noexcept\<close>: an exception of
  \<open>safe_move_construct\<close>, thrown by it or by the copy constructor it falls back to,
  ends the program. The slot info gets the pointer \<open>static_cast<Base*>(dst)\<close>.
\<close>

definition vector_move_step ::
    "nat \<Rightarrow> 'v poly_vector \<times> 'v poly_vector \<Rightarrow>
     (unit, 'v poly_vector \<times> 'v poly_vector) outcome" where
  "vector_move_step i s =
     (case s of (this, other) \<Rightarrow>
        (case (ptr (slots_v other ! i), ops (slots_v other ! i)) of
           (Some p, Some t) \<Rightarrow>
             (case safe_move_construct t of
                Inl e \<Rightarrow> Throw e s
              | Inr r \<Rightarrow>
                  (case relocate r (storage_v other ! i) of
                     Throw e _ \<Rightarrow> Throw e s
                   | Terminate \<Rightarrow> Terminate
                   | Return obj _ \<Rightarrow>
                       Return ()
                         (this \<lparr> storage_v := (storage_v this)[i := obj],
                                slots_v := (slots_v this)[i :=
                                   \<lparr> ptr = Some (get_storage_slot i), ops = Some t \<rparr>] \<rparr>,
                          vector_destroy_at i other)))
         | _ \<Rightarrow> Return () s))"

definition vector_move_from ::
    "'v poly_vector \<Rightarrow> 'v poly_vector \<Rightarrow>
     (unit, 'v poly_vector \<times> 'v poly_vector) outcome" where
  "vector_move_from this other =
     (case for_loop [0..<size_v other] vector_move_step
             (this \<lparr> size_v := size_v other \<rparr>, other) of
        Return _ (this', other') \<Rightarrow>
          Return ()
            (this' \<lparr> can_copy_v := can_copy_v other', can_move_v := can_move_v other' \<rparr>,
             other' \<lparr> size_v := 0 \<rparr>)
      | Throw e s \<Rightarrow> Terminate
      | Terminate \<Rightarrow> Terminate)"

definition vector_move_ctor ::
    "'v poly_vector \<Rightarrow> (unit, 'v poly_vector \<times> 'v poly_vector) outcome" where
  "vector_move_ctor other = vector_move_from (vector_init (Capacity other)) other"

text \<open>Move assignment \<open>this = std::move(other)\<close> for two distinct containers;
  self-assignment does nothing.\<close>

definition vector_move_assign ::
    "'v poly_vector \<Rightarrow> 'v poly_vector \<Rightarrow>
     (unit, 'v poly_vector \<times> 'v poly_vector) outcome" where
  "vector_move_assign this other = vector_move_from (vector_clear this) other"

text \<open>
  What dereferencing a stored \<open>Base*\<close> gives: nothing for a null pointer; the value of
  the object when the pointer is the address of the \<open>Base\<close> subobject of a live
  object; otherwise the pointer is not a valid \<open>Base*\<close> (it points into a slot with no
  live object, or not at the \<open>Base\<close> subobject of the object in the slot).
\<close>

datatype 'v pointee = Null | Object 'v | Invalid

definition dereference :: "'v object option list \<Rightarrow> pointer option \<Rightarrow> 'v pointee" where
  "dereference storage p =
     (case p of
        None \<Rightarrow> Null
      | Some a \<Rightarrow>
          (case storage ! fst a of
             None \<Rightarrow> Invalid
           | Some obj \<Rightarrow> if obj_base_offset obj = snd a then Object (obj_value obj) else Invalid))"

text \<open>What \<open>operator[]\<close> gives at a logical index, dereferenced.\<close>

definition vector_elem :: "'v poly_vector \<Rightarrow> nat \<Rightarrow> 'v pointee" where
  "vector_elem v i = dereference (storage_v v) (ptr (slots_v v ! i))"

definition vector_elems :: "'v poly_vector \<Rightarrow> 'v pointee list" where
  "vector_elems v = map (vector_elem v) [0..<size_v v]"

section \<open>poly\_array\<close>

text \<open>The data members of \<open>poly_array\<close>; \<open>N\<close> is the length of \<open>slots_\<close>.\<close>

record 'v poly_array =
  storage_a :: "'v object option list"
  slots_a :: "slot_info list"
  can_copy_a :: bool
  can_move_a :: bool

definition N :: "'v poly_array \<Rightarrow> nat" where
  "N a = length (slots_a a)"

definition array_init :: "nat \<Rightarrow> 'v poly_array" where
  "array_init n =
     \<lparr> storage_a = replicate n None, slots_a = replicate n empty_slot,
       can_copy_a = False, can_move_a = True \<rparr>"

definition array_is_copyable :: "'v poly_array \<Rightarrow> bool" where
  "array_is_copyable a = can_copy_a a"

definition array_is_movable :: "'v poly_array \<Rightarrow> bool" where
  "array_is_movable a = can_move_a a"

definition array_destroy_at :: "nat \<Rightarrow> 'v poly_array \<Rightarrow> 'v poly_array" where
  "array_destroy_at index a =
     (case (ptr (slots_a a ! index), ops (slots_a a ! index)) of
        (Some p, Some t) \<Rightarrow>
          a \<lparr> storage_a := (storage_a a)[fst p := safe_destroy t (storage_a a ! fst p)],
              slots_a := (slots_a a)[index := empty_slot] \<rparr>
      | _ \<Rightarrow> a)"

definition array_update_capabilities :: "'v poly_array \<Rightarrow> 'v poly_array" where
  "array_update_capabilities a =
     (case fold capabilities_step (slots_a a) (True, True, False) of
        (all_copyable, all_movable, has_elements) \<Rightarrow>
          a \<lparr> can_copy_a := \<not> has_elements \<or> all_copyable,
              can_move_a := \<not> has_elements \<or> all_movable \<rparr>)"

text \<open>\<open>emplace<Derived>(index, args...)\<close>: an old occupant is destroyed before the
  constructor of the new one runs.\<close>

definition array_emplace ::
    "'v poly_array \<Rightarrow> nat \<Rightarrow> cpp_type \<Rightarrow> error + 'v object \<Rightarrow>
     (nat, 'v poly_array) outcome" where
  "array_emplace a index T ctor =
     (if index \<ge> N a then Throw OutOfRange a
      else
        (let a1 = (if ptr (slots_a a ! index) \<noteq> None then array_destroy_at index a else a) in
         case ctor of
           Inl e \<Rightarrow> Throw e a1
         | Inr obj \<Rightarrow>
             Return index
               (array_update_capabilities
                  (a1 \<lparr> storage_a := (storage_a a1)[index := Some obj],
                        slots_a := (slots_a a1)[index :=
                                     \<lparr> ptr = Some (index, obj_base_offset obj),
                                       ops = Some (get_type_ops T) \<rparr>] \<rparr>))))"

definition array_clear_step :: "nat \<Rightarrow> 'v poly_array \<Rightarrow> 'v poly_array" where
  "array_clear_step i a = (if ptr (slots_a a ! i) \<noteq> None then array_destroy_at i a else a)"

definition array_clear :: "'v poly_array \<Rightarrow> 'v poly_array" where
  "array_clear a =
     (fold array_clear_step [0..<N a] a) \<lparr> can_copy_a := False, can_move_a := True \<rparr>"

definition array_copy_step ::
    "'v poly_array \<Rightarrow> nat \<Rightarrow> 'v poly_array \<Rightarrow> (unit, 'v poly_array) outcome" where
  "array_copy_step other i this =
     (case (ptr (slots_a other ! i), ops (slots_a other ! i)) of
        (Some p, Some t) \<Rightarrow>
          (case safe_copy_construct t of
             Inl e \<Rightarrow> Throw e this
           | Inr r \<Rightarrow>
               (case relocate r (storage_a other ! i) of
                  Throw e _ \<Rightarrow> Throw e this
                | Terminate \<Rightarrow> Terminate
                | Return obj _ \<Rightarrow>
                    Return ()
                      (this \<lparr> storage_a := (storage_a this)[i := obj],
                             slots_a := (slots_a this)[i :=
                                          \<lparr> ptr = Some (get_storage_slot i), ops = Some t \<rparr>] \<rparr>)))
      | _ \<Rightarrow> Return () this)"

definition array_copy_from ::
    "'v poly_array \<Rightarrow> 'v poly_array \<Rightarrow> (unit, 'v poly_array) outcome" where
  "array_copy_from this other =
     (case for_loop [0..<N this] (array_copy_step other) this of
        Return _ this' \<Rightarrow>
          Return () (this' \<lparr> can_copy_a := can_copy_a other, can_move_a := can_move_a other \<rparr>)
      | Throw e this' \<Rightarrow> Throw e this'
      | Terminate \<Rightarrow> Terminate)"

definition array_copy_ctor :: "'v poly_array \<Rightarrow> (unit, 'v poly_array) outcome" where
  "array_copy_ctor other =
     (if \<not> can_copy_a other then Throw NotCopyable (array_init (N other))
      else array_copy_from (array_init (N other)) other)"

definition array_copy_assign ::
    "'v poly_array \<Rightarrow> 'v poly_array \<Rightarrow> (unit, 'v poly_array) outcome" where
  "array_copy_assign this other =
     (if \<not> can_copy_a other then Throw NotCopyable this
      else array_copy_from (array_clear this) other)"

definition array_copy_assign_self :: "'v poly_array \<Rightarrow> (unit, 'v poly_array) outcome" where
  "array_copy_assign_self this =
     (if \<not> can_copy_a this then Throw NotCopyable this else Return () this)"





definition array_elem :: "'v poly_array \<Rightarrow> nat \<Rightarrow> 'v pointee" where
  "array_elem a i = dereference (storage_a a) (ptr (slots_a a ! i))"

section \<open>Well-formed states and example types\<close>

text \<open>What every table built by \<open>create\<close> satisfies.\<close>

definition table_ok :: "type_operations \<Rightarrow> bool" where
  "table_ok t =
     (destroy t \<and> move_construct t = is_move_constructible t \<and>
      copy_construct t = is_copy_constructible t)"

text \<open>
  A well-formed slot \<open>i\<close> is either empty (null pointer, null table, no live object in
  its storage) or holds a live object in its own storage, with a pointer into its own
  storage and a table made by the factory.
\<close>

definition slot_ok :: "'v option \<Rightarrow> nat \<Rightarrow> slot_info \<Rightarrow> bool" where
  "slot_ok obj i s =
     (case (ptr s, ops s) of
        (None, None) \<Rightarrow> obj = None
      | (Some p, Some t) \<Rightarrow> fst p = i \<and> table_ok t \<and> obj \<noteq> None
      | _ \<Rightarrow> False)"

text \<open>
  A well-formed \<open>poly_vector\<close>: every slot is well formed and the slots from \<open>size_\<close>
  on are empty. A slot below \<open>size_\<close> may be empty (\<open>resize\<close> adds such slots).
\<close>

definition vector_inv :: "'v poly_vector \<Rightarrow> bool" where
  "vector_inv v =
     (length (storage_v v) = length (slots_v v) \<and> size_v v \<le> length (slots_v v) \<and>
      list_all (\<lambda>i. slot_ok (storage_v v ! i) i (slots_v v ! i)) [0..<length (slots_v v)] \<and>
      list_all (\<lambda>i. slots_v v ! i = empty_slot) [size_v v..<length (slots_v v)])"

definition array_inv :: "'v poly_array \<Rightarrow> bool" where
  "array_inv a =
     (length (storage_a a) = length (slots_a a) \<and>
      list_all (\<lambda>i. slot_ok (storage_a a ! i) i (slots_a a ! i)) [0..<length (slots_a a)])"

text \<open>
  Example element types, by their traits: \<open>Label\<close> (copyable and movable), \<open>Canvas\<close>
  (move-only) and \<open>ImmovableDerived1\<close> (copy and move deleted) are classes of the test
  suite; \<open>CopyOnly\<close> has a copy constructor and a deleted move constructor; \<open>Pod\<close> is
  trivially copyable; \<open>Decorated\<close> is copyable and movable and derives from an 8-byte
  class first and from \<open>Base\<close> second.
\<close>

definition Label :: cpp_type where
  "Label = \<lparr> sizeof_T = 48, alignof_T = 8, is_trivially_copyable_v = False,
             is_copy_constructible_v = True, is_move_constructible_v = True,
             is_move_assignable_v = True, is_copy_assignable_v = True \<rparr>"

definition Canvas :: cpp_type where
  "Canvas = \<lparr> sizeof_T = 32, alignof_T = 8, is_trivially_copyable_v = False,
              is_copy_constructible_v = False, is_move_constructible_v = True,
              is_move_assignable_v = True, is_copy_assignable_v = False \<rparr>"

definition ImmovableDerived1 :: cpp_type where
  "ImmovableDerived1 = \<lparr> sizeof_T = 16, alignof_T = 8, is_trivially_copyable_v = False,
              is_copy_constructible_v = False, is_move_constructible_v = False,
              is_move_assignable_v = False, is_copy_assignable_v = False \<rparr>"

definition CopyOnly :: cpp_type where
  "CopyOnly = \<lparr> sizeof_T = 16, alignof_T = 8, is_trivially_copyable_v = False,
              is_copy_constructible_v = True, is_move_constructible_v = False,
              is_move_assignable_v = False, is_copy_assignable_v = True \<rparr>"

definition Pod :: cpp_type where
  "Pod = \<lparr> sizeof_T = 16, alignof_T = 8, is_trivially_copyable_v = True,
           is_copy_constructible_v = True, is_move_constructible_v = True,
           is_move_assignable_v = True, is_copy_assignable_v = True \<rparr>"

definition Decorated :: cpp_type where
  "Decorated = \<lparr> sizeof_T = 56, alignof_T = 8, is_trivially_copyable_v = False,
                 is_copy_constructible_v = True, is_move_constructible_v = True,
                 is_move_assignable_v = True, is_copy_assignable_v = True \<rparr>"

lemmas example_types = Label_def Canvas_def ImmovableDerived1_def CopyOnly_def Pod_def
  Decorated_def

text \<open>
  An object whose \<open>Base\<close> subobject is at offset 0 and whose constructors do not throw,
  and the slot info of slot \<open>i\<close> holding such an object of type \<open>T\<close>.
\<close>

definition simple_object :: "'v \<Rightarrow> 'v object" where
  "simple_object x =
     \<lparr> obj_value = x, obj_base_offset = 0, obj_move_throws = False, obj_copy_throws = False \<rparr>"

definition slot_of :: "nat \<Rightarrow> cpp_type \<Rightarrow> slot_info" where
  "slot_of i T = \<lparr> ptr = Some (i, 0), ops = Some (get_type_ops T) \<rparr>"

definition widgets :: "nat poly_vector" where
  "widgets =
     \<lparr> storage_v = [Some (simple_object 10), Some (simple_object 20), None, None],
       slots_v = [slot_of 0 Label, slot_of 1 Canvas, empty_slot, empty_slot],
       size_v = 2, can_copy_v = False, can_move_v = True \<rparr>"

definition widget_array :: "nat poly_array" where
  "widget_array =
     \<lparr> storage_a = [Some (simple_object 10), None, Some (simple_object 20)],
       slots_a = [slot_of 0 Label, empty_slot, slot_of 2 Canvas],
       can_copy_a = False, can_move_a = True \<rparr>"

lemmas example_states = widgets_def widget_array_def slot_of_def empty_slot_def
  simple_object_def get_type_ops_def create_def example_types

text \<open>The condition of the claims on \<open>is_copyable()\<close>: every occupied slot of a list of
  slots has a copy-constructible type.\<close>

definition every_occupant_copyable :: "slot_info list \<Rightarrow> bool" where
  "every_occupant_copyable xs =
     list_all (\<lambda>s. case (ptr s, ops s) of
                      (Some p, Some t) \<Rightarrow> is_copy_constructible t
                    | _ \<Rightarrow> True) xs"

definition every_occupant_movable :: "slot_info list \<Rightarrow> bool" where
  "every_occupant_movable xs =
     list_all (\<lambda>s. case (ptr s, ops s) of
                      (Some p, Some t) \<Rightarrow> is_move_constructible t
                    | _ \<Rightarrow> True) xs"

text \<open>The flag returned by \<open>is_copyable()\<close> is exact when it says what the claim says:
  true iff every occupied slot (of the first \<open>size_\<close> slots for a poly\_vector) has a
  copy-constructible type.\<close>

definition vector_flag_exact :: "'v poly_vector \<Rightarrow> bool" where
  "vector_flag_exact v =
     (vector_is_copyable v \<longleftrightarrow> every_occupant_copyable (take (size_v v) (slots_v v)))"

definition array_flag_exact :: "'v poly_array \<Rightarrow> bool" where
  "array_flag_exact a = (array_is_copyable a \<longleftrightarrow> every_occupant_copyable (slots_a a))"

text \<open>A vector holding one move-only \<open>Canvas\<close> (the test "Copy fails with move-only
  types").\<close>

definition one_canvas :: "nat poly_vector" where
  "one_canvas =
     \<lparr> storage_v = [Some (simple_object 100), None],
       slots_v = [slot_of 0 Canvas, empty_slot],
       size_v = 1, can_copy_v = False, can_move_v = True \<rparr>"

text \<open>Two \<open>CopyOnly\<close> objects, as two calls of \<open>emplace_back<CopyOnly>\<close> on an empty
  vector of capacity 4 leave them.\<close>

definition copy_only_pair :: "nat poly_vector" where
  "copy_only_pair =
     \<lparr> storage_v = [Some (simple_object 1), Some (simple_object 2), None, None],
       slots_v = [slot_of 0 CopyOnly, slot_of 1 CopyOnly, empty_slot, empty_slot],
       size_v = 2, can_copy_v = True, can_move_v = False \<rparr>"

text \<open>Three \<open>Label\<close> objects in a vector of capacity 4, and the state a failed
  \<open>emplace\<close> at index 1 leaves.\<close>

definition three_labels :: "nat poly_vector" where
  "three_labels =
     \<lparr> storage_v = [Some (simple_object 1), Some (simple_object 2), Some (simple_object 3),
                    None],
       slots_v = [slot_of 0 Label, slot_of 1 Label, slot_of 2 Label, empty_slot],
       size_v = 3, can_copy_v = True, can_move_v = True \<rparr>"

definition three_labels_torn :: "nat poly_vector" where
  "three_labels_torn =
     \<lparr> storage_v = [Some (simple_object 1), None, Some (simple_object 2),
                    Some (simple_object 3)],
       slots_v = [slot_of 0 Label, empty_slot, slot_of 2 Label, slot_of 3 Label],
       size_v = 3, can_copy_v = True, can_move_v = True \<rparr>"





text \<open>
  Objects that the relocating loops do not carry over as they are: one whose copy
  constructor throws, one whose move constructor throws, and one whose \<open>Base\<close> subobject
  is at offset 8 (a \<open>Decorated\<close>); the vectors that \<open>emplace_back\<close> on an empty vector
  of capacity 2 makes of the first (as a \<open>CopyOnly\<close>) and of the third; and the vector
  that two calls of
  \<open>emplace_back<CopyOnly>\<close> on an empty vector of capacity 3 make of the first and of an
  object whose copy constructor does not throw.
\<close>

definition throwing_copy :: "'v \<Rightarrow> 'v object" where
  "throwing_copy x =
     \<lparr> obj_value = x, obj_base_offset = 0, obj_move_throws = False, obj_copy_throws = True \<rparr>"

definition throwing_move :: "'v \<Rightarrow> 'v object" where
  "throwing_move x =
     \<lparr> obj_value = x, obj_base_offset = 0, obj_move_throws = True, obj_copy_throws = False \<rparr>"

definition second_base :: "'v \<Rightarrow> 'v object" where
  "second_base x =
     \<lparr> obj_value = x, obj_base_offset = 8, obj_move_throws = False, obj_copy_throws = False \<rparr>"

definition one_throwing_copy :: "nat poly_vector" where
  "one_throwing_copy =
     \<lparr> storage_v = [Some (throwing_copy 1), None],
       slots_v = [slot_of 0 CopyOnly, empty_slot],
       size_v = 1, can_copy_v = True, can_move_v = False \<rparr>"

definition throwing_copy_pair :: "nat poly_vector" where
  "throwing_copy_pair =
     \<lparr> storage_v = [Some (throwing_copy 1), Some (simple_object 2), None],
       slots_v = [slot_of 0 CopyOnly, slot_of 1 CopyOnly, empty_slot],
       size_v = 2, can_copy_v = True, can_move_v = False \<rparr>"

definition one_second_base :: "nat poly_vector" where
  "one_second_base =
     \<lparr> storage_v = [Some (second_base 1), None],
       slots_v = [\<lparr> ptr = Some (0, 8), ops = Some (get_type_ops Decorated) \<rparr>, empty_slot],
       size_v = 1, can_copy_v = True, can_move_v = True \<rparr>"

text \<open>The slot info a shift writes at index \<open>k\<close> for the slot info \<open>s\<close> it finds at the
  source: \<open>s\<close> with the pointer of slot \<open>k\<close> when \<open>s\<close> is occupied; an unoccupied source
  is skipped.\<close>

definition moved_slot :: "nat \<Rightarrow> slot_info \<Rightarrow> slot_info" where
  "moved_slot k s = (if occupied s then s \<lparr> ptr := Some (get_storage_slot k) \<rparr> else s)"

section \<open>Destroying slots\<close>

lemma vector_destroy_at_simps [simp]:
  "length (slots_v (vector_destroy_at i v)) = length (slots_v v)"
  "length (storage_v (vector_destroy_at i v)) = length (storage_v v)"
  "size_v (vector_destroy_at i v) = size_v v"
  "can_copy_v (vector_destroy_at i v) = can_copy_v v"
  "can_move_v (vector_destroy_at i v) = can_move_v v"
  by (simp_all add: vector_destroy_at_def split: option.splits)

lemma fold_vector_destroy_at_simps [simp]:
  "length (slots_v (fold vector_destroy_at is v)) = length (slots_v v)"
  "length (storage_v (fold vector_destroy_at is v)) = length (storage_v v)"
  "size_v (fold vector_destroy_at is v) = size_v v"
  "can_copy_v (fold vector_destroy_at is v) = can_copy_v v"
  "can_move_v (fold vector_destroy_at is v) = can_move_v v"
  by (induction "is" arbitrary: v; simp)+

lemma occupied_empty_slot [simp]: "\<not> occupied empty_slot"
  by (simp add: occupied_def empty_slot_def)

lemma vector_destroy_at_slots:
  "k < length (slots_v v) \<Longrightarrow>
   slots_v (vector_destroy_at i v) ! k =
     (if k = i \<and> occupied (slots_v v ! k) then empty_slot else slots_v v ! k)"
  by (auto simp: vector_destroy_at_def occupied_def nth_list_update split: option.splits)

lemma fold_vector_destroy_at_slots:
  "k < length (slots_v v) \<Longrightarrow>
   slots_v (fold vector_destroy_at is v) ! k =
     (if k \<in> set is \<and> occupied (slots_v v ! k) then empty_slot else slots_v v ! k)"
proof (induction "is" arbitrary: v)
  case Nil
  then show ?case by simp
next
  case (Cons i "is")
  have "slots_v (fold vector_destroy_at is (vector_destroy_at i v)) ! k =
        (if k \<in> set is \<and> occupied (slots_v (vector_destroy_at i v) ! k) then empty_slot
         else slots_v (vector_destroy_at i v) ! k)"
    using Cons.prems by (intro Cons.IH) simp
  then show ?case
    using Cons.prems by (auto simp: vector_destroy_at_slots)
qed

lemma nth_list_update_None:
  "xs ! j = None \<Longrightarrow> (xs[i := None]) ! j = None"
  by (cases "i = j"; cases "j < length xs"; simp add: list_update_beyond)

lemma vector_destroy_at_storage_None:
  "storage_v v ! p = None \<Longrightarrow> storage_v (vector_destroy_at i v) ! p = None"
  by (auto simp: vector_destroy_at_def safe_destroy_def nth_list_update_None
           split: option.splits)

lemma fold_vector_destroy_at_storage_None:
  "storage_v v ! p = None \<Longrightarrow> storage_v (fold vector_destroy_at is v) ! p = None"
  by (induction "is" arbitrary: v) (simp_all add: vector_destroy_at_storage_None)

lemma vector_destroy_at_storage_destroyed:
  "i < length (slots_v v) \<Longrightarrow> ptr (slots_v v ! i) = Some p \<Longrightarrow> ops (slots_v v ! i) = Some t \<Longrightarrow>
   destroy t \<Longrightarrow> fst p < length (storage_v v) \<Longrightarrow>
   storage_v (vector_destroy_at i v) ! fst p = None"
  by (simp add: vector_destroy_at_def safe_destroy_def)

lemma fold_vector_destroy_at_storage_destroyed:
  "i \<in> set is \<Longrightarrow> i < length (slots_v v) \<Longrightarrow> ptr (slots_v v ! i) = Some p \<Longrightarrow>
   ops (slots_v v ! i) = Some t \<Longrightarrow> destroy t \<Longrightarrow> fst p < length (storage_v v) \<Longrightarrow>
   storage_v (fold vector_destroy_at is v) ! fst p = None"
proof (induction "is" arbitrary: v)
  case Nil
  then show ?case by simp
next
  case (Cons j "is")
  show ?case
  proof (cases "j = i")
    case True
    have "storage_v (vector_destroy_at i v) ! fst p = None"
      using Cons.prems by (intro vector_destroy_at_storage_destroyed) auto
    then show ?thesis
      using True by (simp add: fold_vector_destroy_at_storage_None)
  next
    case False
    with Cons.prems have "i \<in> set is" by simp
    moreover have "slots_v (vector_destroy_at j v) ! i = slots_v v ! i"
      using False Cons.prems by (simp add: vector_destroy_at_slots)
    ultimately have "storage_v (fold vector_destroy_at is (vector_destroy_at j v)) ! fst p = None"
      using Cons.prems by (intro Cons.IH) auto
    then show ?thesis by simp
  qed
qed


lemma array_destroy_at_simps [simp]:
  "length (slots_a (array_destroy_at i arr)) = length (slots_a arr)"
  "length (storage_a (array_destroy_at i arr)) = length (storage_a arr)"
  "can_copy_a (array_destroy_at i arr) = can_copy_a arr"
  "can_move_a (array_destroy_at i arr) = can_move_a arr"
  by (simp_all add: array_destroy_at_def split: option.splits)

lemma fold_array_destroy_at_simps [simp]:
  "length (slots_a (fold array_destroy_at is arr)) = length (slots_a arr)"
  "length (storage_a (fold array_destroy_at is arr)) = length (storage_a arr)"
  "can_copy_a (fold array_destroy_at is arr) = can_copy_a arr"
  "can_move_a (fold array_destroy_at is arr) = can_move_a arr"
  by (induction "is" arbitrary: arr; simp)+

lemma array_destroy_at_slots:
  "k < length (slots_a arr) \<Longrightarrow>
   slots_a (array_destroy_at i arr) ! k =
     (if k = i \<and> occupied (slots_a arr ! k) then empty_slot else slots_a arr ! k)"
  by (auto simp: array_destroy_at_def occupied_def nth_list_update split: option.splits)

lemma fold_array_destroy_at_slots:
  "k < length (slots_a arr) \<Longrightarrow>
   slots_a (fold array_destroy_at is arr) ! k =
     (if k \<in> set is \<and> occupied (slots_a arr ! k) then empty_slot else slots_a arr ! k)"
proof (induction "is" arbitrary: arr)
  case Nil
  then show ?case by simp
next
  case (Cons i "is")
  have "slots_a (fold array_destroy_at is (array_destroy_at i arr)) ! k =
        (if k \<in> set is \<and> occupied (slots_a (array_destroy_at i arr) ! k) then empty_slot
         else slots_a (array_destroy_at i arr) ! k)"
    using Cons.prems by (intro Cons.IH) simp
  then show ?case
    using Cons.prems by (auto simp: array_destroy_at_slots)
qed

lemma array_destroy_at_storage_None:
  "storage_a arr ! p = None \<Longrightarrow> storage_a (array_destroy_at i arr) ! p = None"
  by (auto simp: array_destroy_at_def safe_destroy_def nth_list_update_None
           split: option.splits)

lemma fold_array_destroy_at_storage_None:
  "storage_a arr ! p = None \<Longrightarrow> storage_a (fold array_destroy_at is arr) ! p = None"
  by (induction "is" arbitrary: arr) (simp_all add: array_destroy_at_storage_None)

lemma array_destroy_at_storage_destroyed:
  "i < length (slots_a arr) \<Longrightarrow> ptr (slots_a arr ! i) = Some p \<Longrightarrow> ops (slots_a arr ! i) = Some t \<Longrightarrow>
   destroy t \<Longrightarrow> fst p < length (storage_a arr) \<Longrightarrow>
   storage_a (array_destroy_at i arr) ! fst p = None"
  by (simp add: array_destroy_at_def safe_destroy_def)

lemma fold_array_destroy_at_storage_destroyed:
  "i \<in> set is \<Longrightarrow> i < length (slots_a arr) \<Longrightarrow> ptr (slots_a arr ! i) = Some p \<Longrightarrow>
   ops (slots_a arr ! i) = Some t \<Longrightarrow> destroy t \<Longrightarrow> fst p < length (storage_a arr) \<Longrightarrow>
   storage_a (fold array_destroy_at is arr) ! fst p = None"
proof (induction "is" arbitrary: arr)
  case Nil
  then show ?case by simp
next
  case (Cons j "is")
  show ?case
  proof (cases "j = i")
    case True
    have "storage_a (array_destroy_at i arr) ! fst p = None"
      using Cons.prems by (intro array_destroy_at_storage_destroyed) auto
    then show ?thesis
      using True by (simp add: fold_array_destroy_at_storage_None)
  next
    case False
    with Cons.prems have "i \<in> set is" by simp
    moreover have "slots_a (array_destroy_at j arr) ! i = slots_a arr ! i"
      using False Cons.prems by (simp add: array_destroy_at_slots)
    ultimately have "storage_a (fold array_destroy_at is (array_destroy_at j arr)) ! fst p = None"
      using Cons.prems by (intro Cons.IH) auto
    then show ?thesis by simp
  qed
qed


section \<open>Relocation strategy\<close>



section \<open>Empty-vector access\<close>

text \<open>
  Claim C10. On a \<open>poly_vector\<close> with \<open>size_ == 0\<close>, each of \<open>pop_back()\<close>, \<open>front()\<close>
  and \<open>back()\<close> throws \<open>std::out_of_range\<close> and leaves the container as it was.
\<close>

theorem empty_vector_access_throws:
  "size_v v = 0 \<Longrightarrow>
   vector_pop_back v = Throw OutOfRange v \<and>
   vector_front v = Throw OutOfRange v \<and>
   vector_back v = Throw OutOfRange v"
  by (simp add: vector_pop_back_def vector_front_def vector_back_def)

theorem empty_vector_access_throws_witness:
  "size_v (vector_init 3 :: nat poly_vector) = 0 \<and>
   vector_pop_back (vector_init 3 :: nat poly_vector) = Throw OutOfRange (vector_init 3) \<and>
   vector_front (vector_init 3 :: nat poly_vector) = Throw OutOfRange (vector_init 3) \<and>
   vector_back (vector_init 3 :: nat poly_vector) = Throw OutOfRange (vector_init 3)"
proof -
  have h: "size_v (vector_init 3 :: nat poly_vector) = 0"
    by (simp add: vector_init_def)
  show ?thesis
    using h empty_vector_access_throws [OF h] by simp
qed

section \<open>clear\<close>

lemma slot_info_eq_empty: "ptr s = None \<Longrightarrow> ops s = None \<Longrightarrow> s = empty_slot"
  by (cases s) (simp add: empty_slot_def)

lemma slot_ok_cases:
  "slot_ok obj i s \<Longrightarrow>
   (s = empty_slot \<and> obj = None) \<or>
   (\<exists>p t. ptr s = Some p \<and> fst p = i \<and> ops s = Some t \<and> table_ok t \<and> obj \<noteq> None)"
  by (auto simp: slot_ok_def slot_info_eq_empty split: option.splits)

lemma slot_ok_not_occupied:
  "slot_ok obj i s \<Longrightarrow> \<not> occupied s \<Longrightarrow> s = empty_slot \<and> obj = None"
  by (auto simp: occupied_def dest: slot_ok_cases)

lemma slot_ok_occupied:
  "slot_ok obj i s \<Longrightarrow> occupied s \<Longrightarrow>
   \<exists>p t. ptr s = Some p \<and> fst p = i \<and> ops s = Some t \<and> table_ok t \<and> obj \<noteq> None"
  by (auto dest: slot_ok_cases)

lemma vector_inv_iff:
  "vector_inv v \<longleftrightarrow>
     length (storage_v v) = length (slots_v v) \<and> size_v v \<le> length (slots_v v) \<and>
     (\<forall>i<length (slots_v v). slot_ok (storage_v v ! i) i (slots_v v ! i)) \<and>
     (\<forall>i<length (slots_v v). size_v v \<le> i \<longrightarrow> slots_v v ! i = empty_slot)"
  by (auto simp: vector_inv_def list_all_iff)

lemma array_inv_iff:
  "array_inv a \<longleftrightarrow>
     length (storage_a a) = length (slots_a a) \<and>
     (\<forall>i<length (slots_a a). slot_ok (storage_a a ! i) i (slots_a a ! i))"
  by (auto simp: array_inv_def list_all_iff)

lemma vector_clear_simps [simp]:
  "size_v (vector_clear v) = 0"
  "can_copy_v (vector_clear v) = False"
  "can_move_v (vector_clear v) = True"
  "length (slots_v (vector_clear v)) = length (slots_v v)"
  "length (storage_v (vector_clear v)) = length (storage_v v)"
  by (simp_all add: vector_clear_def)

lemma vector_clear_slots:
  "k < length (slots_v v) \<Longrightarrow>
   slots_v (vector_clear v) ! k =
     (if k < size_v v \<and> occupied (slots_v v ! k) then empty_slot else slots_v v ! k)"
  by (simp add: vector_clear_def fold_vector_destroy_at_slots)

lemma vector_clear_destroys:
  "i < size_v v \<Longrightarrow> i < length (slots_v v) \<Longrightarrow> ptr (slots_v v ! i) = Some p \<Longrightarrow>
   ops (slots_v v ! i) = Some t \<Longrightarrow> destroy t \<Longrightarrow> fst p < length (storage_v v) \<Longrightarrow>
   storage_v (vector_clear v) ! fst p = None"
  by (simp add: vector_clear_def fold_vector_destroy_at_storage_destroyed [where i = i])

lemma vector_clear_destroys_pair:
  "i < size_v v \<Longrightarrow> i < length (slots_v v) \<Longrightarrow> ptr (slots_v v ! i) = Some (q, off) \<Longrightarrow>
   ops (slots_v v ! i) = Some t \<Longrightarrow> destroy t \<Longrightarrow> q < length (storage_v v) \<Longrightarrow>
   storage_v (vector_clear v) ! q = None"
  using vector_clear_destroys [of i v "(q, off)" t] by simp

lemma vector_clear_inv:
  assumes "vector_inv v"
  shows "vector_clear v = vector_init (Capacity v)"
proof -
  from assms have len: "length (storage_v v) = length (slots_v v)"
    and sz: "size_v v \<le> length (slots_v v)"
    and ok: "\<And>i. i < length (slots_v v) \<Longrightarrow> slot_ok (storage_v v ! i) i (slots_v v ! i)"
    and beyond: "\<And>i. i < length (slots_v v) \<Longrightarrow> size_v v \<le> i \<Longrightarrow> slots_v v ! i = empty_slot"
    by (simp_all add: vector_inv_iff)
  have slots: "slots_v (vector_clear v) = replicate (length (slots_v v)) empty_slot"
  proof (rule nth_equalityI)
    show "length (slots_v (vector_clear v)) = length (replicate (length (slots_v v)) empty_slot)"
      by simp
  next
    fix k assume "k < length (slots_v (vector_clear v))"
    then have k: "k < length (slots_v v)" by simp
    show "slots_v (vector_clear v) ! k = replicate (length (slots_v v)) empty_slot ! k"
    proof (cases "occupied (slots_v v ! k)")
      case True
      with beyond [OF k] have "k < size_v v"
        by (cases "k < size_v v") auto
      with True k show ?thesis by (simp add: vector_clear_slots)
    next
      case False
      with ok [OF k] have "slots_v v ! k = empty_slot"
        by (auto dest: slot_ok_not_occupied)
      with k show ?thesis by (simp add: vector_clear_slots)
    qed
  qed
  have storage: "storage_v (vector_clear v) = replicate (length (slots_v v)) None"
  proof (rule nth_equalityI)
    show "length (storage_v (vector_clear v)) = length (replicate (length (slots_v v)) None)"
      by (simp add: len)
  next
    fix k assume "k < length (storage_v (vector_clear v))"
    then have k: "k < length (slots_v v)" by (simp add: len)
    have "storage_v (vector_clear v) ! k = None"
    proof (cases "occupied (slots_v v ! k)")
      case True
      with beyond [OF k] have ksz: "k < size_v v"
        by (cases "k < size_v v") auto
      from slot_ok_occupied [OF ok [OF k] True] obtain p t where
        p: "ptr (slots_v v ! k) = Some p" "fst p = k" "ops (slots_v v ! k) = Some t" "table_ok t"
        by blast
      then have "storage_v (vector_clear v) ! fst p = None"
        using ksz k len by (intro vector_clear_destroys [where i = k and t = t])
                           (simp_all add: table_ok_def)
      with p show ?thesis by simp
    next
      case False
      with ok [OF k] have "storage_v v ! k = None"
        by (auto dest: slot_ok_not_occupied)
      then show ?thesis
        by (simp add: vector_clear_def fold_vector_destroy_at_storage_None)
    qed
    with k show "storage_v (vector_clear v) ! k = replicate (length (slots_v v)) None ! k"
      by simp
  qed
  show ?thesis
    by (rule poly_vector.equality) (simp_all add: slots storage vector_init_def Capacity_def)
qed


lemma array_clear_step_eq: "array_clear_step i arr = array_destroy_at i arr"
  by (simp add: array_clear_step_def array_destroy_at_def split: option.splits)

lemma array_clear_eq:
  "array_clear arr =
     (fold array_destroy_at [0..<N arr] arr) \<lparr> can_copy_a := False, can_move_a := True \<rparr>"
proof -
  have "array_clear_step = (array_destroy_at :: nat \<Rightarrow> 'a poly_array \<Rightarrow> 'a poly_array)"
    by (intro ext) (rule array_clear_step_eq)
  then show ?thesis by (simp add: array_clear_def)
qed

lemma array_clear_simps [simp]:
  "can_copy_a (array_clear arr) = False"
  "can_move_a (array_clear arr) = True"
  "length (slots_a (array_clear arr)) = length (slots_a arr)"
  "length (storage_a (array_clear arr)) = length (storage_a arr)"
  by (simp_all add: array_clear_eq)

lemma array_clear_slots:
  "k < length (slots_a arr) \<Longrightarrow>
   slots_a (array_clear arr) ! k =
     (if occupied (slots_a arr ! k) then empty_slot else slots_a arr ! k)"
  by (simp add: array_clear_eq fold_array_destroy_at_slots N_def)

lemma array_clear_destroys:
  "i < length (slots_a arr) \<Longrightarrow> ptr (slots_a arr ! i) = Some p \<Longrightarrow>
   ops (slots_a arr ! i) = Some t \<Longrightarrow> destroy t \<Longrightarrow> fst p < length (storage_a arr) \<Longrightarrow>
   storage_a (array_clear arr) ! fst p = None"
  by (simp add: array_clear_eq N_def fold_array_destroy_at_storage_destroyed [where i = i])

lemma array_clear_destroys_pair:
  "i < length (slots_a arr) \<Longrightarrow> ptr (slots_a arr ! i) = Some (q, off) \<Longrightarrow>
   ops (slots_a arr ! i) = Some t \<Longrightarrow> destroy t \<Longrightarrow> q < length (storage_a arr) \<Longrightarrow>
   storage_a (array_clear arr) ! q = None"
  using array_clear_destroys [of i arr "(q, off)" t] by simp

lemma array_clear_inv:
  assumes "array_inv arr"
  shows "array_clear arr = array_init (N arr)"
proof -
  from assms have len: "length (storage_a arr) = length (slots_a arr)"
    and ok: "\<And>i. i < length (slots_a arr) \<Longrightarrow> slot_ok (storage_a arr ! i) i (slots_a arr ! i)"
    by (simp_all add: array_inv_iff)
  have slots: "slots_a (array_clear arr) = replicate (length (slots_a arr)) empty_slot"
  proof (rule nth_equalityI)
    show "length (slots_a (array_clear arr)) = length (replicate (length (slots_a arr)) empty_slot)"
      by simp
  next
    fix k assume "k < length (slots_a (array_clear arr))"
    then have k: "k < length (slots_a arr)" by simp
    show "slots_a (array_clear arr) ! k = replicate (length (slots_a arr)) empty_slot ! k"
    proof (cases "occupied (slots_a arr ! k)")
      case True
      with k show ?thesis by (simp add: array_clear_slots)
    next
      case False
      with ok [OF k] have "slots_a arr ! k = empty_slot"
        by (auto dest: slot_ok_not_occupied)
      with k show ?thesis by (simp add: array_clear_slots)
    qed
  qed
  have storage: "storage_a (array_clear arr) = replicate (length (slots_a arr)) None"
  proof (rule nth_equalityI)
    show "length (storage_a (array_clear arr)) = length (replicate (length (slots_a arr)) None)"
      by (simp add: len)
  next
    fix k assume "k < length (storage_a (array_clear arr))"
    then have k: "k < length (slots_a arr)" by (simp add: len)
    have "storage_a (array_clear arr) ! k = None"
    proof (cases "occupied (slots_a arr ! k)")
      case True
      from slot_ok_occupied [OF ok [OF k] True] obtain p t where
        p: "ptr (slots_a arr ! k) = Some p" "fst p = k" "ops (slots_a arr ! k) = Some t" "table_ok t"
        by blast
      then have "storage_a (array_clear arr) ! fst p = None"
        using k len by (intro array_clear_destroys [where i = k and t = t])
                       (simp_all add: table_ok_def)
      with p show ?thesis by simp
    next
      case False
      with ok [OF k] have "storage_a arr ! k = None"
        by (auto dest: slot_ok_not_occupied)
      then show ?thesis
        by (simp add: array_clear_eq fold_array_destroy_at_storage_None)
    qed
    with k show "storage_a (array_clear arr) ! k = replicate (length (slots_a arr)) None ! k"
      by simp
  qed
  show ?thesis
    by (rule poly_array.equality) (simp_all add: slots storage array_init_def N_def)
qed

text \<open>
  What \<open>clear()\<close> does in every state: it sets \<open>size_\<close> to 0 (poly\_vector), \<open>can_copy_\<close>
  to false and \<open>can_move_\<close> to true; each of the slots it visits (the first \<open>size_\<close>
  slots of a poly\_vector, all \<open>N\<close> slots of a poly\_array) that has a non-null pointer
  and table has its object destroyed and its slot info reset to empty. In a well-formed
  state the result is exactly the default-constructed container.
\<close>

lemma clear_visited_slots:
  fixes v :: "'v poly_vector" and a :: "'w poly_array"
  shows
  "size_v (vector_clear v) = 0 \<and> \<not> can_copy_v (vector_clear v) \<and> can_move_v (vector_clear v) \<and>
   (\<forall>i<size_v v. i < Capacity v \<longrightarrow>
      \<not> occupied (slots_v (vector_clear v) ! i) \<and>
      (occupied (slots_v v ! i) \<longrightarrow> slots_v (vector_clear v) ! i = empty_slot) \<and>
      (\<forall>p t. ptr (slots_v v ! i) = Some p \<and> ops (slots_v v ! i) = Some t \<and> destroy t \<and>
             fst p < length (storage_v v) \<longrightarrow> storage_v (vector_clear v) ! fst p = None)) \<and>
   (vector_inv v \<longrightarrow> vector_clear v = vector_init (Capacity v)) \<and>
   \<not> can_copy_a (array_clear a) \<and> can_move_a (array_clear a) \<and>
   (\<forall>i<N a.
      \<not> occupied (slots_a (array_clear a) ! i) \<and>
      (occupied (slots_a a ! i) \<longrightarrow> slots_a (array_clear a) ! i = empty_slot) \<and>
      (\<forall>p t. ptr (slots_a a ! i) = Some p \<and> ops (slots_a a ! i) = Some t \<and> destroy t \<and>
             fst p < length (storage_a a) \<longrightarrow> storage_a (array_clear a) ! fst p = None)) \<and>
   (array_inv a \<longrightarrow> array_clear a = array_init (N a))"
proof -
  have v1: "\<forall>i<size_v v. i < Capacity v \<longrightarrow>
      \<not> occupied (slots_v (vector_clear v) ! i) \<and>
      (occupied (slots_v v ! i) \<longrightarrow> slots_v (vector_clear v) ! i = empty_slot) \<and>
      (\<forall>p t. ptr (slots_v v ! i) = Some p \<and> ops (slots_v v ! i) = Some t \<and> destroy t \<and>
             fst p < length (storage_v v) \<longrightarrow> storage_v (vector_clear v) ! fst p = None)"
    by (auto simp: Capacity_def vector_clear_slots intro: vector_clear_destroys_pair)
  have a1: "\<forall>i<N a.
      \<not> occupied (slots_a (array_clear a) ! i) \<and>
      (occupied (slots_a a ! i) \<longrightarrow> slots_a (array_clear a) ! i = empty_slot) \<and>
      (\<forall>p t. ptr (slots_a a ! i) = Some p \<and> ops (slots_a a ! i) = Some t \<and> destroy t \<and>
             fst p < length (storage_a a) \<longrightarrow> storage_a (array_clear a) ! fst p = None)"
    by (auto simp: N_def array_clear_slots intro: array_clear_destroys_pair)
  show ?thesis
    using v1 a1 by (simp add: vector_clear_inv array_clear_inv)
qed

lemma clear_example:
  "vector_inv widgets \<and> size_v widgets = 2 \<and> occupied (slots_v widgets ! 0) \<and>
   occupied (slots_v widgets ! 1) \<and>
   vector_clear widgets = vector_init 4 \<and>
   array_inv widget_array \<and> occupied (slots_a widget_array ! 2) \<and>
   array_clear widget_array = array_init 3"
  by code_simp

text \<open>
  Claim C8 says that \<open>clear()\<close> destroys every occupied slot and resets all slot infos
  to empty, in every state. \<open>poly_vector::clear\<close> visits the slots \<open>[0, size_)\<close> only. In
  the state that \<open>emplace\<close> at index 1 leaves when the constructor of the new element
  throws after the shift, slot 3 is occupied and lies outside \<open>[0, size_)\<close>: after
  \<open>clear()\<close> it is still occupied, its object has not been destroyed, and the vector is
  not the default-constructed one.
\<close>

theorem clear_after_failed_emplace:
  "vector_emplace three_labels 1 Label (Inl ConstructorFailure) =
     Throw ConstructorFailure three_labels_torn \<and>
   size_v three_labels_torn = 3 \<and> Capacity three_labels_torn = 4 \<and>
   occupied (slots_v three_labels_torn ! 3) \<and>
   storage_v three_labels_torn ! 3 = Some (simple_object 3) \<and>
   size_v (vector_clear three_labels_torn) = 0 \<and>
   occupied (slots_v (vector_clear three_labels_torn) ! 3) \<and>
   slots_v (vector_clear three_labels_torn) ! 3 = slot_of 3 Label \<and>
   storage_v (vector_clear three_labels_torn) ! 3 = Some (simple_object 3) \<and>
   vector_clear three_labels_torn \<noteq> vector_init 4"
  by code_simp

section \<open>Capability flags\<close>

lemma capabilities_step_eq:
  "capabilities_step s (ac, am, he) =
     (ac \<and> every_occupant_copyable [s], am \<and> every_occupant_movable [s], he \<or> occupied s)"
  by (cases "ptr s"; cases "ops s")
     (auto simp: capabilities_step_def every_occupant_copyable_def
        every_occupant_movable_def occupied_def)

lemma fold_capabilities_step:
  "fold capabilities_step xs (ac, am, he) =
     (ac \<and> every_occupant_copyable xs, am \<and> every_occupant_movable xs,
      he \<or> list_ex occupied xs)"
proof (induction xs arbitrary: ac am he)
  case Nil
  then show ?case
    by (simp add: every_occupant_copyable_def every_occupant_movable_def)
next
  case (Cons s xs)
  have "fold capabilities_step (s # xs) (ac, am, he) =
        fold capabilities_step xs
          (ac \<and> every_occupant_copyable [s], am \<and> every_occupant_movable [s], he \<or> occupied s)"
    by (simp add: capabilities_step_eq)
  also have "\<dots> = ((ac \<and> every_occupant_copyable [s]) \<and> every_occupant_copyable xs,
                   (am \<and> every_occupant_movable [s]) \<and> every_occupant_movable xs,
                   (he \<or> occupied s) \<or> list_ex occupied xs)"
    by (rule Cons.IH)
  finally show ?case
    by (auto simp: every_occupant_copyable_def every_occupant_movable_def)
qed

lemma no_occupant_copyable:
  "(\<not> list_ex occupied xs \<or> every_occupant_copyable xs) = every_occupant_copyable xs"
  "(\<not> list_ex occupied xs \<or> every_occupant_movable xs) = every_occupant_movable xs"
  "(list_ex occupied xs \<longrightarrow> every_occupant_copyable xs) = every_occupant_copyable xs"
  "(list_ex occupied xs \<longrightarrow> every_occupant_movable xs) = every_occupant_movable xs"
  by (auto simp: list_ex_iff every_occupant_copyable_def every_occupant_movable_def
        list_all_iff occupied_def split: option.splits)

lemma vector_update_capabilities_simps [simp]:
  "slots_v (vector_update_capabilities v) = slots_v v"
  "storage_v (vector_update_capabilities v) = storage_v v"
  "size_v (vector_update_capabilities v) = size_v v"
  "can_copy_v (vector_update_capabilities v) =
     every_occupant_copyable (take (size_v v) (slots_v v))"
  "can_move_v (vector_update_capabilities v) =
     every_occupant_movable (take (size_v v) (slots_v v))"
  by (simp_all add: vector_update_capabilities_def fold_capabilities_step
        no_occupant_copyable)

lemma array_update_capabilities_simps [simp]:
  "slots_a (array_update_capabilities arr) = slots_a arr"
  "storage_a (array_update_capabilities arr) = storage_a arr"
  "can_copy_a (array_update_capabilities arr) = every_occupant_copyable (slots_a arr)"
  "can_move_a (array_update_capabilities arr) = every_occupant_movable (slots_a arr)"
  by (simp_all add: array_update_capabilities_def fold_capabilities_step
        no_occupant_copyable)

lemma every_occupant_copyable_nth:
  "every_occupant_copyable xs \<Longrightarrow> i < length xs \<Longrightarrow> ptr (xs ! i) = Some p \<Longrightarrow>
   ops (xs ! i) = Some t \<Longrightarrow> is_copy_constructible t"
  by (cases p) (auto simp: every_occupant_copyable_def list_all_length split: option.splits)

lemma every_occupant_movable_nth:
  "every_occupant_movable xs \<Longrightarrow> i < length xs \<Longrightarrow> ptr (xs ! i) = Some p \<Longrightarrow>
   ops (xs ! i) = Some t \<Longrightarrow> is_move_constructible t"
  by (cases p) (auto simp: every_occupant_movable_def list_all_length split: option.splits)

section \<open>The shift loops keep the shape of the container\<close>

declare shift_right_loop.simps [simp del]
declare shift_left_loop.simps [simp del]
declare resize_shrink.simps [simp del]
declare resize_grow.simps [simp del]

lemma shift_step_shape:
  "shift_step src dst v = Return r v' \<Longrightarrow>
   length (slots_v v') = length (slots_v v) \<and> length (storage_v v') = length (storage_v v) \<and>
   size_v v' = size_v v \<and> can_copy_v v' = can_copy_v v \<and> can_move_v v' = can_move_v v"
  by (auto simp: shift_step_def Let_def split: option.splits sum.splits outcome.splits)

lemma shift_right_loop_shape:
  "shift_right_loop i start_index count v = Return r v' \<Longrightarrow>
   length (slots_v v') = length (slots_v v) \<and> length (storage_v v') = length (storage_v v) \<and>
   size_v v' = size_v v \<and> can_copy_v v' = can_copy_v v \<and> can_move_v v' = can_move_v v"
proof (induction i start_index count v rule: shift_right_loop.induct)
  case (1 i start_index count v)
  show ?case
  proof (cases "i > start_index")
    case True
    with "1.prems" obtain u v1 where
      step: "shift_step (i - 1) (i - 1 + count) v = Return u v1" and
      rest: "shift_right_loop (i - 1) start_index count v1 = Return r v'"
      by (subst (asm) shift_right_loop.simps) (auto split: outcome.splits)
    from "1.IH" [OF True step rest] shift_step_shape [OF step] show ?thesis
      by simp
  next
    case False
    with "1.prems" show ?thesis
      by (subst (asm) shift_right_loop.simps) simp
  qed
qed

lemma shift_left_loop_shape:
  "shift_left_loop i n count v = Return r v' \<Longrightarrow>
   length (slots_v v') = length (slots_v v) \<and> length (storage_v v') = length (storage_v v) \<and>
   size_v v' = size_v v \<and> can_copy_v v' = can_copy_v v \<and> can_move_v v' = can_move_v v"
proof (induction i n count v rule: shift_left_loop.induct)
  case (1 i n count v)
  show ?case
  proof (cases "i < n")
    case True
    with "1.prems" obtain u v1 where
      step: "shift_step i (i - count) v = Return u v1" and
      rest: "shift_left_loop (i + 1) n count v1 = Return r v'"
      by (subst (asm) shift_left_loop.simps) (auto split: outcome.splits)
    from "1.IH" [OF True step rest] shift_step_shape [OF step] show ?thesis
      by simp
  next
    case False
    with "1.prems" show ?thesis
      by (subst (asm) shift_left_loop.simps) simp
  qed
qed

section \<open>is\_copyable\<close>

lemma vector_update_capabilities_exact:
  "vector_flag_exact (vector_update_capabilities v)"
  by (simp add: vector_flag_exact_def vector_is_copyable_def)

lemma array_update_capabilities_exact:
  "array_flag_exact (array_update_capabilities arr)"
  by (simp add: array_flag_exact_def array_is_copyable_def)

lemma not_copyable_occupant:
  assumes "i < n" "i < length xs" "xs ! i = \<lparr> ptr = Some p, ops = Some (get_type_ops T) \<rparr>"
    "\<not> is_copy_constructible_v T"
  shows "\<not> every_occupant_copyable (take n xs)"
proof
  assume "every_occupant_copyable (take n xs)"
  moreover have "i < length (take n xs)"
    "take n xs ! i = \<lparr> ptr = Some p, ops = Some (get_type_ops T) \<rparr>"
    using assms by simp_all
  ultimately have "is_copy_constructible (get_type_ops T)"
    by (intro every_occupant_copyable_nth [where i = i and xs = "take n xs" and p = p])
       simp_all
  with assms(4) show False
    by (simp add: get_type_ops_def create_def)
qed

lemma vector_emplace_back_exact:
  assumes "vector_emplace_back v T ctor = Return r v'"
  shows "vector_flag_exact v' \<and> (\<not> is_copy_constructible_v T \<longrightarrow> \<not> vector_is_copyable v')"
proof -
  from assms obtain obj where
    lt: "size_v v < length (slots_v v)" and
    v': "v' = vector_update_capabilities
               (v \<lparr> storage_v := (storage_v v)[size_v v := Some obj],
                    slots_v := (slots_v v)[size_v v :=
                                 \<lparr> ptr = Some (size_v v, obj_base_offset obj),
                                   ops = Some (get_type_ops T) \<rparr>],
                    size_v := size_v v + 1 \<rparr>)"
    by (auto simp: vector_emplace_back_def Capacity_def split: if_splits sum.splits)
  have "\<not> is_copy_constructible_v T \<Longrightarrow> \<not> vector_is_copyable v'"
    unfolding v' vector_is_copyable_def using lt
    by (simp add: not_copyable_occupant
          [where i = "size_v v" and T = T and p = "(size_v v, obj_base_offset obj)"])
  then show ?thesis
    by (auto simp: v' vector_update_capabilities_exact)
qed

lemma vector_emplace_exact:
  assumes "vector_emplace v i T ctor = Return r v'"
  shows "vector_flag_exact v' \<and> (\<not> is_copy_constructible_v T \<longrightarrow> \<not> vector_is_copyable v')"
proof -
  from assms obtain obj u v1 where
    i: "i \<le> size_v v" and lt: "size_v v < length (slots_v v)" and
    shift: "(if i < size_v v then vector_shift_right v i 1 else Return () v) = Return u v1" and
    v': "v' = vector_update_capabilities
               (v1 \<lparr> storage_v := (storage_v v1)[i := Some obj],
                     slots_v := (slots_v v1)[i :=
                                  \<lparr> ptr = Some (i, obj_base_offset obj),
                                    ops = Some (get_type_ops T) \<rparr>],
                     size_v := size_v v1 + 1 \<rparr>)"
    by (auto simp: vector_emplace_def Capacity_def
             split: if_splits sum.splits outcome.splits)
  have shape: "length (slots_v v1) = length (slots_v v) \<and> size_v v1 = size_v v"
    using shift shift_right_loop_shape [of "size_v v" i 1 v u v1]
    by (auto simp: vector_shift_right_def split: if_splits)
  have "\<not> is_copy_constructible_v T \<Longrightarrow> \<not> vector_is_copyable v'"
    unfolding v' vector_is_copyable_def using lt i shape
    by (simp add: not_copyable_occupant
          [where i = i and T = T and p = "(i, obj_base_offset obj)"])
  then show ?thesis
    by (auto simp: v' vector_update_capabilities_exact)
qed

lemma vector_pop_back_exact:
  "vector_pop_back v = Return r v' \<Longrightarrow> vector_flag_exact v'"
  by (auto simp: vector_pop_back_def vector_update_capabilities_exact split: if_splits)

lemma vector_erase_exact:
  "first_index < last_index \<Longrightarrow> vector_erase v first_index last_index = Return r v' \<Longrightarrow>
   vector_flag_exact v'"
  by (auto simp: vector_erase_def Let_def vector_update_capabilities_exact
           split: if_splits outcome.splits)

lemma array_emplace_exact:
  assumes "array_emplace arr i T ctor = Return r arr'"
  shows "array_flag_exact arr' \<and> (\<not> is_copy_constructible_v T \<longrightarrow> \<not> array_is_copyable arr')"
proof -
  define a1 where "a1 = (if ptr (slots_a arr ! i) \<noteq> None then array_destroy_at i arr else arr)"
  from assms obtain obj where
    lt: "i < length (slots_a arr)" and
    arr': "arr' = array_update_capabilities
               (a1 \<lparr> storage_a := (storage_a a1)[i := Some obj],
                     slots_a := (slots_a a1)[i :=
                                  \<lparr> ptr = Some (i, obj_base_offset obj),
                                    ops = Some (get_type_ops T) \<rparr>] \<rparr>)"
    by (auto simp: array_emplace_def N_def a1_def Let_def
             split: if_splits sum.splits)
  have len: "length (slots_a a1) = length (slots_a arr)"
    by (simp add: a1_def)
  have "\<not> is_copy_constructible_v T \<Longrightarrow> \<not> array_is_copyable arr'"
    unfolding arr' array_is_copyable_def using lt len
      not_copyable_occupant [where i = i and T = T and n = "length (slots_a arr)"
        and p = "(i, obj_base_offset obj)"
        and xs = "(slots_a a1)[i := \<lparr> ptr = Some (i, obj_base_offset obj),
                                      ops = Some (get_type_ops T) \<rparr>]"]
    by simp
  then show ?thesis
    by (auto simp: arr' array_update_capabilities_exact)
qed

text \<open>
  Claim C1, as stated: \<open>is_copyable()\<close> is true iff every occupied slot is
  copy-constructible, in particular for a freshly default-constructed container. It
  fails there: the flag starts as false although no slot is occupied.
\<close>

theorem is_copyable_default_counterexample:
  "\<not> vector_flag_exact (vector_init 4 :: nat poly_vector)"
  by (simp add: vector_flag_exact_def vector_is_copyable_def vector_init_def
        every_occupant_copyable_def)

text \<open>
  Claim C1, amended. \<open>is_copyable()\<close> returns the stored flag \<open>can_copy_\<close>. Right after
  every successful \<open>emplace_back\<close>, \<open>emplace\<close>, \<open>pop_back\<close> and non-empty \<open>erase\<close> of a
  poly\_vector, and every successful \<open>emplace\<close> of a poly\_array, the flag is true iff
  every occupied slot is copy-constructible (true when none is occupied); so it is false
  right after a non-copyable occupant is inserted. A default-constructed container and a
  container after \<open>clear()\<close> report false.
\<close>

theorem is_copyable_after_update:
  fixes v :: "'v poly_vector" and a :: "'w poly_array"
  shows
  "(vector_emplace_back v T ctor = Return r1 v1 \<longrightarrow>
      vector_flag_exact v1 \<and> (\<not> is_copy_constructible_v T \<longrightarrow> \<not> vector_is_copyable v1)) \<and>
   (vector_emplace v i T ctor = Return r2 v2 \<longrightarrow>
      vector_flag_exact v2 \<and> (\<not> is_copy_constructible_v T \<longrightarrow> \<not> vector_is_copyable v2)) \<and>
   (vector_pop_back v = Return r3 v3 \<longrightarrow> vector_flag_exact v3) \<and>
   (first_index < last_index \<and> vector_erase v first_index last_index = Return r4 v4 \<longrightarrow>
      vector_flag_exact v4) \<and>
   (array_emplace a j U ctor' = Return r5 a5 \<longrightarrow>
      array_flag_exact a5 \<and> (\<not> is_copy_constructible_v U \<longrightarrow> \<not> array_is_copyable a5)) \<and>
   \<not> vector_is_copyable (vector_init n :: 'v poly_vector) \<and>
   \<not> vector_is_copyable (vector_clear v) \<and>
   \<not> array_is_copyable (array_init n :: 'w poly_array) \<and>
   \<not> array_is_copyable (array_clear a)"
  using vector_emplace_back_exact [of v T ctor r1 v1] vector_emplace_exact [of v i T ctor r2 v2]
    vector_pop_back_exact [of v r3 v3] vector_erase_exact [of first_index last_index v r4 v4]
    array_emplace_exact [of a j U ctor' r5 a5]
  by (simp add: vector_is_copyable_def array_is_copyable_def vector_init_def array_init_def)

theorem is_copyable_after_update_witness:
  "vector_emplace_back (vector_init 2) Canvas (Inr (simple_object (7::nat))) =
     Return 0 \<lparr> storage_v = [Some (simple_object 7), None],
                slots_v = [slot_of 0 Canvas, empty_slot],
                size_v = 1, can_copy_v = False, can_move_v = True \<rparr> \<and>
   vector_emplace widgets 1 Canvas (Inr (simple_object 30)) =
     Return 1 \<lparr> storage_v = [Some (simple_object 10), Some (simple_object 30),
                             Some (simple_object 20), None],
                slots_v = [slot_of 0 Label, slot_of 1 Canvas, slot_of 2 Canvas, empty_slot],
                size_v = 3, can_copy_v = False, can_move_v = True \<rparr> \<and>
   vector_pop_back widgets =
     Return () \<lparr> storage_v = [Some (simple_object 10), None, None, None],
                 slots_v = [slot_of 0 Label, empty_slot, empty_slot, empty_slot],
                 size_v = 1, can_copy_v = True, can_move_v = True \<rparr> \<and>
   (1::nat) < 2 \<and>
   vector_erase widgets 1 2 =
     Return 1 \<lparr> storage_v = [Some (simple_object 10), None, None, None],
                slots_v = [slot_of 0 Label, empty_slot, empty_slot, empty_slot],
                size_v = 1, can_copy_v = True, can_move_v = True \<rparr> \<and>
   array_emplace widget_array 1 Canvas (Inr (simple_object 5)) =
     Return 1 \<lparr> storage_a = [Some (simple_object 10), Some (simple_object 5),
                             Some (simple_object 20)],
                slots_a = [slot_of 0 Label, slot_of 1 Canvas, slot_of 2 Canvas],
                can_copy_a = False, can_move_a = True \<rparr> \<and>
   \<not> is_copy_constructible_v Canvas \<and>
   vector_flag_exact \<lparr> storage_v = [Some (simple_object (7::nat)), None],
                       slots_v = [slot_of 0 Canvas, empty_slot],
                       size_v = 1, can_copy_v = False, can_move_v = True \<rparr> \<and>
   vector_flag_exact \<lparr> storage_v = [Some (simple_object (10::nat)), None, None, None],
                 slots_v = [slot_of 0 Label, empty_slot, empty_slot, empty_slot],
                 size_v = 1, can_copy_v = True, can_move_v = True \<rparr>"
proof -
  let ?v1 = "\<lparr> storage_v = [Some (simple_object (7::nat)), None],
                slots_v = [slot_of 0 Canvas, empty_slot],
                size_v = 1, can_copy_v = False, can_move_v = True \<rparr>"
  let ?v2 = "\<lparr> storage_v = [Some (simple_object (10::nat)), Some (simple_object 30),
                             Some (simple_object 20), None],
                slots_v = [slot_of 0 Label, slot_of 1 Canvas, slot_of 2 Canvas, empty_slot],
                size_v = 3, can_copy_v = False, can_move_v = True \<rparr>"
  let ?v3 = "\<lparr> storage_v = [Some (simple_object (10::nat)), None, None, None],
                 slots_v = [slot_of 0 Label, empty_slot, empty_slot, empty_slot],
                 size_v = 1, can_copy_v = True, can_move_v = True \<rparr>"
  let ?a5 = "\<lparr> storage_a = [Some (simple_object (10::nat)), Some (simple_object 5),
                             Some (simple_object 20)],
                slots_a = [slot_of 0 Label, slot_of 1 Canvas, slot_of 2 Canvas],
                can_copy_a = False, can_move_a = True \<rparr>"
  have e1: "vector_emplace_back (vector_init 2) Canvas (Inr (simple_object (7::nat))) =
            Return 0 ?v1"
    by (simp add: vector_emplace_back_def vector_init_def Capacity_def numeral_2_eq_2
          vector_update_capabilities_def capabilities_step_def example_states)
  have e2: "vector_emplace widgets 1 Canvas (Inr (simple_object 30)) = Return 1 ?v2"
    by code_simp
  have e3: "vector_pop_back widgets = Return () ?v3"
    by (simp add: vector_pop_back_def vector_destroy_at_def safe_destroy_def
          vector_update_capabilities_def capabilities_step_def example_states)
  have e4: "vector_erase widgets 1 2 = Return 1 ?v3"
    by code_simp
  have e5: "array_emplace widget_array 1 Canvas (Inr (simple_object 5)) = Return 1 ?a5"
    by (simp add: array_emplace_def N_def array_update_capabilities_def
          capabilities_step_def example_states)
  have nc: "\<not> is_copy_constructible_v Canvas"
    by (simp add: example_types)
  have lt: "(1::nat) < 2" by simp
  have x1: "vector_flag_exact ?v1"
    using is_copyable_after_update
            [of "vector_init 2" Canvas "Inr (simple_object (7::nat))" 0 ?v1] e1
    by blast
  have x3: "vector_flag_exact ?v3"
    using is_copyable_after_update [of widgets _ _ _ _ _ _ _ "()" ?v3] e3
    by blast
  show ?thesis
    using e1 e2 e3 e4 e5 nc lt x1 x3 by simp
qed

section \<open>Whole-container copy\<close>

lemma for_loop_Throw:
  "for_loop is body s = Throw e s' \<Longrightarrow> \<exists>i s0. i \<in> set is \<and> body i s0 = Throw e s'"
proof (induction "is" arbitrary: s)
  case Nil
  then show ?case by simp
next
  case (Cons i "is")
  show ?case
  proof (cases "body i s")
    case (Return u s1)
    with Cons.prems have "for_loop is body s1 = Throw e s'" by simp
    from Cons.IH [OF this] show ?thesis by auto
  next
    case (Throw e1 s1)
    with Cons.prems show ?thesis by auto
  next
    case Terminate
    with Cons.prems show ?thesis by simp
  qed
qed

lemma vector_copy_step_Throw:
  "vector_copy_step other i this = Throw e s \<Longrightarrow>
   e = NotCopyConstructible \<or> e = ConstructorFailure"
  by (auto simp: vector_copy_step_def safe_copy_construct_def relocate_def
           split: option.splits sum.splits if_splits outcome.splits relocation.splits)

lemma array_copy_step_Throw:
  "array_copy_step other i this = Throw e s \<Longrightarrow>
   e = NotCopyConstructible \<or> e = ConstructorFailure"
  by (auto simp: array_copy_step_def safe_copy_construct_def relocate_def
           split: option.splits sum.splits if_splits outcome.splits relocation.splits)

lemma vector_copy_from_Throw:
  "vector_copy_from this other = Throw e s \<Longrightarrow> e \<noteq> NotCopyable"
  by (auto simp: vector_copy_from_def split: outcome.splits
           dest!: for_loop_Throw vector_copy_step_Throw)

lemma array_copy_from_Throw:
  "array_copy_from this other = Throw e s \<Longrightarrow> e \<noteq> NotCopyable"
  by (auto simp: array_copy_from_def split: outcome.splits
           dest!: for_loop_Throw array_copy_step_Throw)

text \<open>
  Claim C4, as stated: whole-container copy signals \<open>NotCopyable\<close> iff some occupied
  slot of the source lacks copy support. It fails for a default-constructed source:
  every occupied slot (there is none) is copy-constructible, and the copy constructor
  throws \<open>NotCopyable\<close>.
\<close>

theorem copy_default_constructed_counterexample:
  "every_occupant_copyable
     (take (size_v (vector_init 4 :: nat poly_vector)) (slots_v (vector_init 4 :: nat poly_vector))) \<and>
   vector_copy_ctor (vector_init 4 :: nat poly_vector) = Throw NotCopyable (vector_init 4)"
  by (simp add: vector_copy_ctor_def vector_init_def Capacity_def every_occupant_copyable_def)

text \<open>
  Claim C4, amended. The copy constructor and the copy assignment of both containers
  signal \<open>NotCopyable\<close> iff the source's \<open>is_copyable()\<close> flag is false at the call; the
  destination is then unchanged (for a constructor: as default-initialised), and the
  source is only read. Where the flag is exact (see C1), that is iff some occupied slot
  of the source lacks copy support; a default-constructed or cleared source has the
  flag false with no occupant.
\<close>

theorem copy_signals_not_copyable:
  fixes other this :: "'v poly_vector" and other_a this_a :: "'w poly_array"
  shows
  "(vector_copy_ctor other = Throw NotCopyable s \<longleftrightarrow>
      \<not> vector_is_copyable other \<and> s = vector_init (Capacity other)) \<and>
   (vector_copy_assign this other = Throw NotCopyable s \<longleftrightarrow>
      \<not> vector_is_copyable other \<and> s = this) \<and>
   (array_copy_ctor other_a = Throw NotCopyable sa \<longleftrightarrow>
      \<not> array_is_copyable other_a \<and> sa = array_init (N other_a)) \<and>
   (array_copy_assign this_a other_a = Throw NotCopyable sa \<longleftrightarrow>
      \<not> array_is_copyable other_a \<and> sa = this_a) \<and>
   (vector_flag_exact other \<longrightarrow>
      (vector_copy_ctor other = Throw NotCopyable (vector_init (Capacity other)) \<longleftrightarrow>
       \<not> every_occupant_copyable (take (size_v other) (slots_v other)))) \<and>
   (array_flag_exact other_a \<longrightarrow>
      (array_copy_ctor other_a = Throw NotCopyable (array_init (N other_a)) \<longleftrightarrow>
       \<not> every_occupant_copyable (slots_a other_a)))"
proof -
  have 1: "vector_copy_ctor other = Throw NotCopyable s \<longleftrightarrow>
      \<not> vector_is_copyable other \<and> s = vector_init (Capacity other)" for s
    by (auto simp: vector_copy_ctor_def vector_is_copyable_def dest: vector_copy_from_Throw)
  have 2: "vector_copy_assign this other = Throw NotCopyable s \<longleftrightarrow>
      \<not> vector_is_copyable other \<and> s = this"
    by (auto simp: vector_copy_assign_def vector_is_copyable_def dest: vector_copy_from_Throw)
  have 3: "array_copy_ctor other_a = Throw NotCopyable sa \<longleftrightarrow>
      \<not> array_is_copyable other_a \<and> sa = array_init (N other_a)" for sa
    by (auto simp: array_copy_ctor_def array_is_copyable_def dest: array_copy_from_Throw)
  have 4: "array_copy_assign this_a other_a = Throw NotCopyable sa \<longleftrightarrow>
      \<not> array_is_copyable other_a \<and> sa = this_a"
    by (auto simp: array_copy_assign_def array_is_copyable_def dest: array_copy_from_Throw)
  show ?thesis
    using 2 4 by (simp add: 1 3 vector_flag_exact_def array_flag_exact_def)
qed

theorem copy_signals_not_copyable_witness:
  "vector_flag_exact one_canvas \<and> \<not> vector_is_copyable one_canvas \<and>
   \<not> every_occupant_copyable (take (size_v one_canvas) (slots_v one_canvas)) \<and>
   vector_copy_ctor one_canvas = Throw NotCopyable (vector_init 2) \<and>
   vector_copy_assign widgets one_canvas = Throw NotCopyable widgets \<and>
   array_flag_exact widget_array \<and> \<not> array_is_copyable widget_array \<and>
   array_copy_ctor widget_array = Throw NotCopyable (array_init 3) \<and>
   array_copy_assign (array_init 3) widget_array = Throw NotCopyable (array_init 3)"
proof -
  have f: "vector_flag_exact one_canvas" "\<not> vector_is_copyable one_canvas"
    "array_flag_exact widget_array" "\<not> array_is_copyable widget_array"
    "Capacity one_canvas = 2" "N widget_array = 3"
    by code_simp+
  note T = copy_signals_not_copyable [of one_canvas _ widgets widget_array _ "array_init 3"]
  have "\<not> every_occupant_copyable (take (size_v one_canvas) (slots_v one_canvas))"
    using T [of "vector_init 2" "array_init 3"] f by auto
  moreover have "vector_copy_ctor one_canvas = Throw NotCopyable (vector_init 2)"
    using T [of "vector_init 2" "array_init 3"] f by auto
  moreover have "vector_copy_assign widgets one_canvas = Throw NotCopyable widgets"
    using T [of widgets "array_init 3"] f by auto
  moreover have "array_copy_ctor widget_array = Throw NotCopyable (array_init 3)"
    using T [of "vector_init 2" "array_init 3"] f by auto
  moreover have "array_copy_assign (array_init 3) widget_array = Throw NotCopyable (array_init 3)"
    using T [of "vector_init 2" "array_init 3"] f by auto
  ultimately show ?thesis
    using f by simp
qed

section \<open>resize\<close>



lemma vector_destroy_at_cong:
  "storage_v w = storage_v v \<Longrightarrow> slots_v w = slots_v v \<Longrightarrow>
   storage_v (vector_destroy_at i w) = storage_v (vector_destroy_at i v) \<and>
   slots_v (vector_destroy_at i w) = slots_v (vector_destroy_at i v)"
  by (simp add: vector_destroy_at_def split: option.splits)

lemma resize_shrink_result:
  "\<exists>v'. resize_shrink n v = Return () v' \<and>
     storage_v v' = storage_v (fold vector_destroy_at (rev [n..<size_v v]) v) \<and>
     slots_v v' = slots_v (fold vector_destroy_at (rev [n..<size_v v]) v) \<and>
     size_v v' = min n (size_v v) \<and>
     (n < size_v v \<longrightarrow>
        can_copy_v v' = every_occupant_copyable (take n (slots_v v')) \<and>
        can_move_v v' = every_occupant_movable (take n (slots_v v'))) \<and>
     (size_v v \<le> n \<longrightarrow> v' = v)"
proof (induction n v rule: resize_shrink.induct)
  case (1 n v)
  show ?case
  proof (cases "size_v v > n")
    case True
    define v1 where
      "v1 = vector_update_capabilities
              (vector_destroy_at (size_v v - 1) (v \<lparr> size_v := size_v v - 1 \<rparr>))"
    have pop: "vector_pop_back v = Return () v1"
      using True by (simp add: vector_pop_back_def v1_def)
    have sz1: "size_v v1 = size_v v - 1"
      by (simp add: v1_def)
    have d1: "storage_v v1 = storage_v (vector_destroy_at (size_v v - 1) v) \<and>
              slots_v v1 = slots_v (vector_destroy_at (size_v v - 1) v)"
      unfolding v1_def using vector_destroy_at_cong [of "v \<lparr> size_v := size_v v - 1 \<rparr>" v]
      by simp
    from "1.IH" [OF True pop] obtain v' where
      r: "resize_shrink n v1 = Return () v'" and
      st: "storage_v v' = storage_v (fold vector_destroy_at (rev [n..<size_v v1]) v1)" and
      sl: "slots_v v' = slots_v (fold vector_destroy_at (rev [n..<size_v v1]) v1)" and
      sz: "size_v v' = min n (size_v v1)" and
      fl: "n < size_v v1 \<longrightarrow>
        can_copy_v v' = every_occupant_copyable (take n (slots_v v')) \<and>
        can_move_v v' = every_occupant_movable (take n (slots_v v'))" and
      eq: "size_v v1 \<le> n \<longrightarrow> v' = v1"
      by blast
    have fold_cong: "storage_v (fold vector_destroy_at is w) = storage_v (fold vector_destroy_at is u) \<and>
          slots_v (fold vector_destroy_at is w) = slots_v (fold vector_destroy_at is u)"
      if "storage_v w = storage_v u \<and> slots_v w = slots_v u" for "is" and w u :: "'a poly_vector"
      using that
    proof (induction "is" arbitrary: w u)
      case Nil
      then show ?case by simp
    next
      case (Cons j js)
      have "storage_v (vector_destroy_at j w) = storage_v (vector_destroy_at j u) \<and>
            slots_v (vector_destroy_at j w) = slots_v (vector_destroy_at j u)"
        using Cons.prems by (intro vector_destroy_at_cong) simp_all
      from Cons.IH [OF this] show ?case by simp
    qed
    have upt: "rev [n..<size_v v] = (size_v v - 1) # rev [n..<size_v v - 1]"
      using True by (cases "size_v v") (simp_all add: upt_Suc)
    have f: "storage_v (fold vector_destroy_at (rev [n..<size_v v1]) v1) =
             storage_v (fold vector_destroy_at (rev [n..<size_v v]) v) \<and>
             slots_v (fold vector_destroy_at (rev [n..<size_v v1]) v1) =
             slots_v (fold vector_destroy_at (rev [n..<size_v v]) v)"
      unfolding upt sz1 using fold_cong [OF d1] by simp
    have res: "resize_shrink n v = Return () v'"
      using True pop r by (subst resize_shrink.simps) simp
    have flags: "can_copy_v v' = every_occupant_copyable (take n (slots_v v')) \<and>
                 can_move_v v' = every_occupant_movable (take n (slots_v v'))"
    proof (cases "n < size_v v1")
      case True
      with fl show ?thesis by simp
    next
      case False
      with eq have "v' = v1" by simp
      moreover from False True sz1 have "size_v v1 = n" by simp
      ultimately show ?thesis
        unfolding v1_def by simp
    qed
    show ?thesis
      using res st sl sz f flags True sz1 by (auto simp: min_def)
  next
    case False
    then have "resize_shrink n v = Return () v"
      by (subst resize_shrink.simps) simp
    with False show ?thesis by (simp add: min_def)
  qed
qed






section \<open>erase\<close>

lemma vector_erase_ShiftUnsupported_iff:
  "vector_erase v first_index last_index = Throw ShiftUnsupported s \<longleftrightarrow>
     first_index < last_index \<and> last_index < size_v v \<and> \<not> can_move_v v \<and> s = v"
proof -
  have no: "shift_left_loop i n count u \<noteq> Throw ShiftUnsupported s" for i n count and u :: "'a poly_vector"
  proof (induction i n count u rule: shift_left_loop.induct)
    case (1 i n count u)
    show ?case
    proof (cases "i < n")
      case True
      show ?thesis
      proof (cases "shift_step i (i - count) u")
        case (Return r u1)
        with True "1.IH" [OF True Return] show ?thesis
          by (subst shift_left_loop.simps) simp
      next
        case (Throw e u1)
        then have "e = NoRelocationAvailable \<or> e = ConstructorFailure"
          by (auto simp: shift_step_def safe_move_construct_def relocate_def Let_def
                   split: option.splits sum.splits if_splits outcome.splits)
        with True Throw show ?thesis
          by (subst shift_left_loop.simps) auto
      next
        case Terminate
        with True show ?thesis
          by (subst shift_left_loop.simps) simp
      qed
    next
      case False
      then show ?thesis
        by (subst shift_left_loop.simps) simp
    qed
  qed
  show ?thesis
    using no by (auto simp: vector_erase_def Let_def vector_shift_left_def
                      split: if_splits outcome.splits)
qed

lemma vector_erase_suffix:
  assumes "first_index \<le> size_v v"
  shows "vector_erase v first_index (size_v v) =
           Return first_index
             (if first_index = size_v v then v
              else vector_update_capabilities
                     ((fold vector_destroy_at [first_index..<size_v v] v)
                        \<lparr> size_v := first_index \<rparr>))"
  using assms by (simp add: vector_erase_def Let_def)

lemma vector_pop_back_succeeds:
  "0 < size_v v \<Longrightarrow>
   vector_pop_back v =
     Return () (vector_update_capabilities
                  (vector_destroy_at (size_v v - 1) (v \<lparr> size_v := size_v v - 1 \<rparr>)))"
  by (simp add: vector_pop_back_def)

text \<open>
  Claim C3 says that \<open>erase\<close> signals \<open>ShiftUnsupported\<close> exactly when a shift is needed
  and none of move and copy is available for the occupant types. The guard of \<open>erase\<close>
  tests \<open>can_move_\<close> alone: with two \<open>CopyOnly\<close> occupants (copy constructor present, move
  constructor deleted), erasing the first one throws \<open>ShiftUnsupported\<close> and leaves the
  container as it was, although \<open>safe_move_construct\<close> relocates such an occupant by
  its copy constructor.
\<close>

theorem erase_copy_only_throws:
  "vector_emplace_back (vector_init 4) CopyOnly (Inr (simple_object (1::nat))) =
     Return 0 \<lparr> storage_v = [Some (simple_object 1), None, None, None],
                slots_v = [slot_of 0 CopyOnly, empty_slot, empty_slot, empty_slot],
                size_v = 1, can_copy_v = True, can_move_v = False \<rparr> \<and>
   vector_emplace_back
      \<lparr> storage_v = [Some (simple_object 1), None, None, None],
        slots_v = [slot_of 0 CopyOnly, empty_slot, empty_slot, empty_slot],
        size_v = 1, can_copy_v = True, can_move_v = False \<rparr> CopyOnly (Inr (simple_object 2)) =
     Return 1 copy_only_pair \<and>
   copy_construct (get_type_ops CopyOnly) \<and>
   safe_move_construct (get_type_ops CopyOnly) = Inr CopyConstruct \<and>
   vector_erase copy_only_pair 0 1 = Throw ShiftUnsupported copy_only_pair \<and>
   vector_shift_left (vector_destroy_at 0 copy_only_pair) 1 1 =
     Return () \<lparr> storage_v = [Some (simple_object 2), None, None, None],
                 slots_v = [slot_of 0 CopyOnly, empty_slot, empty_slot, empty_slot],
                 size_v = 2, can_copy_v = True, can_move_v = False \<rparr>"
  by code_simp

section \<open>Failed calls that leave the vector as it was\<close>

lemma vector_emplace_back_Throw:
  "vector_emplace_back v T ctor = Throw e s \<Longrightarrow> s = v"
  by (auto simp: vector_emplace_back_def split: if_splits sum.splits)

lemma vector_pop_back_Throw:
  "vector_pop_back v = Throw e s \<Longrightarrow> s = v \<and> e = OutOfRange"
  by (auto simp: vector_pop_back_def split: if_splits)

lemma vector_resize_Throw:
  "vector_resize v new_size = Throw e s \<Longrightarrow> s = v \<and> e = CapacityExceeded"
  using resize_shrink_result [of new_size v]
  by (auto simp: vector_resize_def split: if_splits outcome.splits)

lemma vector_emplace_Throw_unshifted:
  "vector_emplace v index T ctor = Throw e s \<Longrightarrow> index = size_v v \<Longrightarrow> s = v"
  by (auto simp: vector_emplace_def split: if_splits sum.splits)

text \<open>
  Claim C2 says that the invariant of the dynamic-length container (slots \<open>[0, size)\<close>
  all occupied, logical index \<open>i\<close> in slot \<open>i\<close>) holds after every failed call, also when
  the constructor of the new element throws in an \<open>emplace\<close> that had to shift. The code
  shifts first and has no handler around the construction: after the failure \<open>size_\<close> is
  still 3, slot 1 is empty, the former last element sits in slot 3 outside \<open>[0, size)\<close>,
  and \<open>clear()\<close> (so also the destructor) never destroys it.
\<close>

theorem emplace_failure_after_shift:
  "vector_inv three_labels \<and>
   vector_elems three_labels = [Object 1, Object 2, Object 3] \<and>
   vector_emplace three_labels 1 Label (Inl ConstructorFailure) =
     Throw ConstructorFailure three_labels_torn \<and>
   size_v three_labels_torn = 3 \<and>
   \<not> occupied (slots_v three_labels_torn ! 1) \<and>
   occupied (slots_v three_labels_torn ! 3) \<and>
   vector_elems three_labels_torn = [Object 1, Null, Object 2] \<and>
   \<not> vector_inv three_labels_torn \<and>
   storage_v (vector_clear three_labels_torn) ! 3 = Some (simple_object 3)"
  by code_simp

section \<open>Whole-container move\<close>
















text \<open>
  The same happens for an occupant with only a copy constructor when that constructor
  throws, and for an occupant whose move constructor throws. An occupant whose \<open>Base\<close>
  subobject is not at offset 0 is moved, but the pointer \<open>move_from\<close> stores for it in
  the destination is the start of the slot, not the address of its \<open>Base\<close> subobject. And
  a move assignment into the vector that a failed \<open>emplace\<close> left (see C2) keeps the
  orphaned occupant of slot 3 in the destination.
\<close>

lemma move_throwing_copy_example:
  "vector_emplace_back (vector_init 2) CopyOnly (Inr (throwing_copy 1)) =
     Return 0 one_throwing_copy \<and>
   vector_inv one_throwing_copy \<and>
   vector_move_ctor one_throwing_copy = Terminate \<and>
   vector_move_ctor
     (one_throwing_copy \<lparr> storage_v := [Some (throwing_move 1), None],
                           slots_v := [slot_of 0 Canvas, empty_slot] \<rparr>) = Terminate"
  by code_simp

lemma move_second_base_example:
  "vector_emplace_back (vector_init 2) Decorated (Inr (second_base 1)) =
     Return 0 one_second_base \<and>
   vector_inv one_second_base \<and>
   vector_elems one_second_base = [Object 1] \<and>
   vector_move_ctor one_second_base =
     Return () (one_second_base \<lparr> slots_v := [slot_of 0 Decorated, empty_slot] \<rparr>,
                (vector_init 2) \<lparr> can_copy_v := True, can_move_v := True \<rparr>) \<and>
   vector_elems (one_second_base \<lparr> slots_v := [slot_of 0 Decorated, empty_slot] \<rparr>) =
     [Invalid]"
  by code_simp

lemma move_into_torn_example:
  "\<not> vector_inv three_labels_torn \<and> Capacity three_labels_torn = Capacity widgets \<and>
   vector_move_assign three_labels_torn widgets =
     Return ()
       (widgets \<lparr> storage_v := [Some (simple_object 10), Some (simple_object 20), None,
                                 Some (simple_object 3)],
                  slots_v := [slot_of 0 Label, slot_of 1 Canvas, empty_slot, slot_of 3 Label] \<rparr>,
        vector_init 4)"
  by code_simp



section \<open>Shifting\<close>

lemma moved_slot_empty [simp]: "moved_slot k empty_slot = empty_slot"
  by (simp add: moved_slot_def)















text \<open>
  Nor is the claim true of every occupant that \<open>safe_move_construct\<close> has a constructor
  for. When the copy constructor of a copy-only occupant throws in \<open>shift_right\<close>, the
  exception leaves \<open>emplace\<close> with the occupants behind it already shifted: nothing is
  inserted, the last occupant sits outside \<open>[0, size_)\<close> and the slot it left is empty.
  An occupant whose \<open>Base\<close> subobject is not at offset 0 is shifted, but the pointer
  stored for it afterwards is the start of its new slot, which is not the address of its
  \<open>Base\<close> subobject. A move constructor that throws ends the program.
\<close>

lemma insert_before_throwing_copy_example:
  "vector_emplace_back (vector_init 3) CopyOnly (Inr (throwing_copy 1)) =
     Return 0 (throwing_copy_pair
                 \<lparr> storage_v := [Some (throwing_copy 1), None, None],
                   slots_v := [slot_of 0 CopyOnly, empty_slot, empty_slot], size_v := 1 \<rparr>) \<and>
   vector_emplace_back
     (throwing_copy_pair
        \<lparr> storage_v := [Some (throwing_copy 1), None, None],
          slots_v := [slot_of 0 CopyOnly, empty_slot, empty_slot], size_v := 1 \<rparr>)
     CopyOnly (Inr (simple_object 2)) = Return 1 throwing_copy_pair \<and>
   vector_inv throwing_copy_pair \<and>
   vector_elems throwing_copy_pair = [Object 1, Object 2] \<and>
   vector_emplace throwing_copy_pair 0 CopyOnly (Inr (simple_object 5)) =
     Throw ConstructorFailure
       (throwing_copy_pair
          \<lparr> storage_v := [Some (throwing_copy 1), None, Some (simple_object 2)],
            slots_v := [slot_of 0 CopyOnly, empty_slot, slot_of 2 CopyOnly] \<rparr>)"
  by code_simp

lemma insert_before_second_base_example:
  "vector_elems one_second_base = [Object 1] \<and>
   vector_emplace one_second_base 0 Label (Inr (simple_object 5)) =
     Return 0 (one_second_base
                 \<lparr> storage_v := [Some (simple_object 5), Some (second_base 1)],
                   slots_v := [slot_of 0 Label, slot_of 1 Decorated] \<rparr>
                 \<lparr> size_v := 2 \<rparr>) \<and>
   vector_elems (one_second_base
                   \<lparr> storage_v := [Some (simple_object 5), Some (second_base 1)],
                     slots_v := [slot_of 0 Label, slot_of 1 Decorated] \<rparr>
                   \<lparr> size_v := 2 \<rparr>) = [Object 5, Invalid]"
  by code_simp

lemma insert_before_throwing_move_example:
  "vector_emplace
     (one_throwing_copy \<lparr> storage_v := [Some (throwing_move 1), None],
                           slots_v := [slot_of 0 Canvas, empty_slot] \<rparr>)
     0 Canvas (Inr (simple_object 5)) = Terminate"
  by code_simp



end
